theory Spec2Isabelle
  imports Complex_Main "HOL-Library.Multiset"
begin

section \<open>Provider registry and rotation (lib/providerRotation.js)\<close>

text \<open>
  A provider descriptor as the configuration objects of the source have it. Optional
  properties of the JavaScript object are \<open>option\<close> fields; \<open>isText\<close> is only
  ever tested for truthiness, so it is a boolean. The property \<open>method\<close> of the source
  is the field \<open>rpcMethod\<close> here.
\<close>

record provider =
  name :: string
  baseURL :: string
  apiKey :: "string option"
  responsePath :: "string option"
  rpcMethod :: "string option"
  isText :: bool

text \<open>
  The module-level \<open>providers\<close> map and the two maps of the \<open>ProviderRotation\<close>
  object. Times are milliseconds as \<open>Date.now()\<close> gives them; the clock is passed to
  every operation that reads it.
\<close>

record registry =
  providers :: "string \<Rightarrow> provider list option"
  lastUsedIndex :: "string \<Rightarrow> nat option"
  cooldowns :: "string \<Rightarrow> int option"

definition emptyRegistry :: registry where
  "emptyRegistry = \<lparr>providers = Map.empty, lastUsedIndex = Map.empty, cooldowns = Map.empty\<rparr>"

definition cooldownKey :: "string \<Rightarrow> string \<Rightarrow> string" where
  "cooldownKey currency providerName = currency @ ''-'' @ providerName"

text \<open>\<open>this.cooldowns.get(cooldownKey) || 0\<close>\<close>

definition cooldownUntil :: "registry \<Rightarrow> string \<Rightarrow> provider \<Rightarrow> int" where
  "cooldownUntil r currency p =
     (case cooldowns r (cooldownKey currency (name p)) of None \<Rightarrow> 0 | Some u \<Rightarrow> u)"

text \<open>\<open>this.lastUsedIndex.get(currency) || 0\<close>\<close>

definition lastIndex :: "registry \<Rightarrow> string \<Rightarrow> nat" where
  "lastIndex r currency = (case lastUsedIndex r currency of None \<Rightarrow> 0 | Some i \<Rightarrow> i)"

text \<open>
  The \<open>while (attempts < availableProviders.length)\<close> loop of \<open>getNextProvider\<close>,
  with its two mutable locals as arguments.
\<close>

function rotationLoop ::
  "registry \<Rightarrow> string \<Rightarrow> int \<Rightarrow> provider list \<Rightarrow> nat \<Rightarrow> nat \<Rightarrow> provider option \<times> registry"
where
  "rotationLoop r currency now availableProviders currentIndex attempts =
     (if attempts < length availableProviders then
        (if now \<ge> cooldownUntil r currency
               (availableProviders ! ((currentIndex + 1) mod length availableProviders))
         then (Some (availableProviders ! ((currentIndex + 1) mod length availableProviders)),
               r\<lparr>lastUsedIndex := (lastUsedIndex r)
                    (currency \<mapsto> (currentIndex + 1) mod length availableProviders)\<rparr>)
         else rotationLoop r currency now availableProviders
                ((currentIndex + 1) mod length availableProviders) (attempts + 1))
      else (None, r))"
  by pat_completeness auto
termination
  by (relation "measure (\<lambda>(r, c, now, ps, i, a). length ps - a)") auto

declare rotationLoop.simps [simp del]

definition getNextProvider :: "registry \<Rightarrow> int \<Rightarrow> string \<Rightarrow> provider option \<times> registry" where
  "getNextProvider r now currency =
     (let availableProviders = (case providers r currency of None \<Rightarrow> [] | Some l \<Rightarrow> l)
      in if length availableProviders = 0 then (None, r)
         else rotationLoop r currency now availableProviders (lastIndex r currency) 0)"

definition setCooldown :: "registry \<Rightarrow> int \<Rightarrow> string \<Rightarrow> string \<Rightarrow> int \<Rightarrow> registry" where
  "setCooldown r now currency providerName duration =
     r\<lparr>cooldowns := (cooldowns r)(cooldownKey currency providerName \<mapsto> now + duration)\<rparr>"

definition registerProviders :: "registry \<Rightarrow> string \<Rightarrow> provider list \<Rightarrow> registry" where
  "registerProviders r currency providersList =
     r\<lparr>providers := (providers r)(currency \<mapsto> providersList)\<rparr>"

text \<open>Consecutive calls for one currency, one per clock reading, threading the registry.\<close>

fun getNextProviders :: "registry \<Rightarrow> string \<Rightarrow> int list \<Rightarrow> provider option list" where
  "getNextProviders r currency [] = []"
| "getNextProviders r currency (t # ts) =
     (case getNextProvider r t currency of (p, r') \<Rightarrow> p # getNextProviders r' currency ts)"

text \<open>Any interleaved sequence of selections (clock reading, currency).\<close>

fun afterCalls :: "registry \<Rightarrow> (int \<times> string) list \<Rightarrow> registry" where
  "afterCalls r [] = r"
| "afterCalls r ((t, c) # cs) = afterCalls (snd (getNextProvider r t c)) cs"

text \<open>A descriptor with only a name, for concrete registries.\<close>

definition named :: "string \<Rightarrow> provider" where
  "named n = \<lparr>name = n, baseURL = [], apiKey = None, responsePath = None, rpcMethod = None,
     isText = False\<rparr>"

section \<open>JavaScript values and errors\<close>

text \<open>
  Every \<open>throw\<close> of the source and every exception of the runtime is a value of
  \<open>error\<close>; a computation that may throw returns \<open>error + 'a\<close>.
\<close>

datatype error = Error string | TypeError string | RangeError string | SyntaxError string

fun message :: "error \<Rightarrow> string" where
  "message (Error m) = m"
| "message (TypeError m) = m"
| "message (RangeError m) = m"
| "message (SyntaxError m) = m"

text \<open>
  The values of the program: what \<open>JSON.parse\<close> and \<open>response.text()\<close> produce,
  \<open>undefined\<close> for a missing property, and \<open>JBuiltin\<close>, a function or an object of
  the runtime itself (\<open>Object\<close>, \<open>Object.prototype\<close>,
  \<open>Object.prototype.toString\<close>, and so on), named by its path: a value that a
  property access can yield although no JSON text contains it. A number is the exact
  rational value of a finite double. An object is the list of its own members.
\<close>

datatype jsval =
    JUndefined
  | JNull
  | JBool bool
  | JNum rat
  | JStr string
  | JArr "jsval list"
  | JObj "(string \<times> jsval) list"
  | JBuiltin string

text \<open>What \<open>JSON.parse\<close> produces, and its value in the program.\<close>

datatype jsonValue =
    VNull
  | VBool bool
  | VNum rat
  | VStr string
  | VArr "jsonValue list"
  | VObj "(string \<times> jsonValue) list"

primrec ofJson :: "jsonValue \<Rightarrow> jsval" where
  "ofJson VNull = JNull"
| "ofJson (VBool b) = JBool b"
| "ofJson (VNum r) = JNum r"
| "ofJson (VStr s) = JStr s"
| "ofJson (VArr xs) = JArr (map ofJson xs)"
| "ofJson (VObj kvs) = JObj (map (map_prod id ofJson) kvs)"

text \<open>
  The prototype chain. A property that a value does not own is looked up in its
  prototype: \<open>inheritedBy h k\<close> is the builtin that a value of kind \<open>h\<close> inherits under
  the name \<open>k\<close>, if any; \<open>builtinProp b k\<close> is the property \<open>k\<close> of the builtin
  \<open>b\<close>, or the error its getter throws; \<open>primitiveOf b\<close> is the primitive value the
  builtin converts to. Which members the prototypes have depends on the version of the
  runtime, so the tables are a parameter of every property access. No prototype has a
  member whose name is an array index.
\<close>

datatype holder = OfObject | OfArray | OfString | OfNumber | OfBoolean

record runtime =
  inheritedBy :: "holder \<Rightarrow> string \<Rightarrow> string option"
  builtinProp :: "string \<Rightarrow> string \<Rightarrow> error + jsval"
  primitiveOf :: "string \<Rightarrow> jsval"

definition inherited :: "runtime \<Rightarrow> holder \<Rightarrow> string \<Rightarrow> jsval" where
  "inherited rt h k = (case inheritedBy rt h k of None \<Rightarrow> JUndefined | Some b \<Rightarrow> JBuiltin b)"

fun truthy :: "jsval \<Rightarrow> bool" where
  "truthy JUndefined = False"
| "truthy JNull = False"
| "truthy (JBool b) = b"
| "truthy (JNum r) = (r \<noteq> 0)"
| "truthy (JStr s) = (s \<noteq> [])"
| "truthy (JArr xs) = True"
| "truthy (JObj kvs) = True"
| "truthy (JBuiltin b) = True"

definition isDigit :: "char \<Rightarrow> bool" where
  "isDigit c = ((48::nat) \<le> of_char c \<and> of_char c \<le> (57::nat))"

definition digitValue :: "char \<Rightarrow> nat" where
  "digitValue c = of_char c - 48"

text \<open>The regular expression class \<open>\w\<close>: letters, digits and the underscore.\<close>

definition isWordChar :: "char \<Rightarrow> bool" where
  "isWordChar c =
     (isDigit c \<or> ((65::nat) \<le> of_char c \<and> of_char c \<le> (90::nat))
        \<or> ((97::nat) \<le> of_char c \<and> of_char c \<le> (122::nat)) \<or> c = CHR ''_'')"

text \<open>The value of a string of decimal digits, most significant first.\<close>

definition decimalValue :: "string \<Rightarrow> nat" where
  "decimalValue ds = foldl (\<lambda>acc c. acc * 10 + digitValue c) 0 ds"

text \<open>Decimal rendering of a non-negative integer, as \<open>String(n)\<close> gives below 1e21.\<close>

function showNat :: "nat \<Rightarrow> string" where
  "showNat n =
     (if n < 10 then [char_of (48 + n)] else showNat (n div 10) @ [char_of (48 + n mod 10)])"
  by pat_completeness auto
termination
  by (relation "measure id") auto

declare showNat.simps [simp del]

text \<open>
  A property key that is a canonical array index: decimal digits without a leading zero
  (other than \<open>0\<close> itself).
\<close>

definition arrayIndex :: "string \<Rightarrow> nat option" where
  "arrayIndex k =
     (if k \<noteq> [] \<and> list_all isDigit k \<and> (length k = 1 \<or> hd k \<noteq> CHR ''0'')
      then Some (decimalValue k) else None)"

text \<open>
  Property access \<open>o[k]\<close> with a string key: a \<open>TypeError\<close> on \<open>undefined\<close> and
  \<open>null\<close>; the own member of an object, an element or the length of an array, a
  character or the length of a string; and where the value owns no such member, the one
  it inherits, \<open>undefined\<close> if there is none. A property of a builtin is what the
  runtime says, which may be a getter that throws.
\<close>

fun getProp :: "runtime \<Rightarrow> jsval \<Rightarrow> string \<Rightarrow> error + jsval" where
  "getProp rt JUndefined k =
     Inl (TypeError (''Cannot read properties of undefined (reading '' @ k @ '')''))"
| "getProp rt JNull k =
     Inl (TypeError (''Cannot read properties of null (reading '' @ k @ '')''))"
| "getProp rt (JBool b) k = Inr (inherited rt OfBoolean k)"
| "getProp rt (JNum r) k = Inr (inherited rt OfNumber k)"
| "getProp rt (JStr s) k =
     (if k = ''length'' then Inr (JNum (of_nat (length s)))
      else (case arrayIndex k of
              None \<Rightarrow> Inr (inherited rt OfString k)
            | Some i \<Rightarrow> Inr (if i < length s then JStr [s ! i] else JUndefined)))"
| "getProp rt (JArr xs) k =
     (if k = ''length'' then Inr (JNum (of_nat (length xs)))
      else (case arrayIndex k of
              None \<Rightarrow> Inr (inherited rt OfArray k)
            | Some i \<Rightarrow> Inr (if i < length xs then xs ! i else JUndefined)))"
| "getProp rt (JObj kvs) k =
     Inr (case map_of kvs k of None \<Rightarrow> inherited rt OfObject k | Some v \<Rightarrow> v)"
| "getProp rt (JBuiltin b) k = builtinProp rt b k"

text \<open>
  Property access \<open>o[n]\<close> with the number that \<open>parseInt\<close> made of a digit string
  (exact below 2^53, where the number is the integer the digits denote): an element of
  an array, a character of a string, and otherwise the property named by the decimal
  text of the number.
\<close>

fun getIndex :: "runtime \<Rightarrow> jsval \<Rightarrow> nat \<Rightarrow> error + jsval" where
  "getIndex rt (JStr s) n = Inr (if n < length s then JStr [s ! n] else JUndefined)"
| "getIndex rt (JArr xs) n = Inr (if n < length xs then xs ! n else JUndefined)"
| "getIndex rt v n = getProp rt v (showNat n)"

text \<open>
  The members that every object of the runtime inherits from \<open>Object.prototype\<close>, with
  the number of parameters of each function (its \<open>length\<close>).
\<close>

definition objectPrototype :: "(string \<times> string \<times> nat option) list" where
  "objectPrototype =
     [(''constructor'', ''Object'', Some 1),
      (''__proto__'', ''Object.prototype'', None),
      (''__defineGetter__'', ''Object.prototype.__defineGetter__'', Some 2),
      (''__defineSetter__'', ''Object.prototype.__defineSetter__'', Some 2),
      (''__lookupGetter__'', ''Object.prototype.__lookupGetter__'', Some 1),
      (''__lookupSetter__'', ''Object.prototype.__lookupSetter__'', Some 1),
      (''hasOwnProperty'', ''Object.prototype.hasOwnProperty'', Some 1),
      (''isPrototypeOf'', ''Object.prototype.isPrototypeOf'', Some 1),
      (''propertyIsEnumerable'', ''Object.prototype.propertyIsEnumerable'', Some 1),
      (''toLocaleString'', ''Object.prototype.toLocaleString'', Some 0),
      (''toString'', ''Object.prototype.toString'', Some 0),
      (''valueOf'', ''Object.prototype.valueOf'', Some 0)]"

text \<open>
  A runtime for concrete runs. It lists what plain objects inherit, which is all that
  the runs below read. For arrays, strings, numbers and booleans it lists the same names,
  although their own prototypes override some of them (the constructor of an array is
  \<open>Array\<close>) and add methods: no run below reads an inherited member of such a value.
  Of a builtin function it gives the \<open>length\<close> and the two restricted properties
  \<open>caller\<close> and \<open>arguments\<close>, whose getter throws; the other members of the
  builtins are left out. The primitive value of a builtin is the text of a native
  function or of a plain object.
\<close>

definition restricted :: error where
  "restricted = TypeError (CHR 0x27 # ''caller'' @ [CHR 0x27] @ '', '' @ [CHR 0x27] @ ''callee''
     @ [CHR 0x27] @ '', and '' @ [CHR 0x27] @ ''arguments'' @ [CHR 0x27]
     @ '' properties may not be accessed on strict mode functions or the arguments objects for calls to them'')"

definition nodeRuntime :: runtime where
  "nodeRuntime =
     \<lparr>inheritedBy = (\<lambda>h k. map_option fst (map_of objectPrototype k)),
      builtinProp = (\<lambda>b k.
        (case find (\<lambda>(n, b', a). b' = b) objectPrototype of
           Some (n, b', Some a) \<Rightarrow>
             (if k = ''length'' then Inr (JNum (of_nat a))
              else if k = ''caller'' \<or> k = ''arguments'' then Inl restricted
              else Inr JUndefined)
         | _ \<Rightarrow> Inr JUndefined)),
      primitiveOf = (\<lambda>b.
        (case find (\<lambda>(n, b', a). b' = b) objectPrototype of
           Some (n, b', Some a) \<Rightarrow>
             JStr (''function '' @ (if n = ''constructor'' then ''Object'' else n)
                     @ ''() { [native code] }'')
         | _ \<Rightarrow> JStr ''[object Object]''))\<rparr>"

text \<open>A value with no builtin in it, such as every value read from JSON.\<close>

fun plain :: "jsval \<Rightarrow> bool" where
  "plain (JArr xs) = list_all plain xs"
| "plain (JObj kvs) = list_all plain (map snd kvs)"
| "plain (JBuiltin b) = False"
| "plain v = True"

text \<open>
  A response of \<open>fetch\<close>: \<open>bodyJson\<close> is what \<open>response.json()\<close> resolves to
  (\<open>None\<close> when the body is not JSON and the call rejects), \<open>bodyText\<close> what
  \<open>response.text()\<close> resolves to.
\<close>

record response =
  ok :: bool
  status :: nat
  statusText :: string
  bodyJson :: "jsonValue option"
  bodyText :: string

definition json :: "response \<Rightarrow> error + jsval" where
  "json resp = (case bodyJson resp of
                  None \<Rightarrow> Inl (SyntaxError ''Unexpected token in JSON'')
                | Some d \<Rightarrow> Inr (ofJson d))"

section \<open>Exchange rate cache\<close>

type_synonym rateCache = "string \<Rightarrow> jsval option"

definition mobulaSymbols :: "(string \<times> string) list" where
  "mobulaSymbols =
     [(''bitcoin'', ''BTC''), (''ethereum'', ''ETH''), (''solana'', ''SOL''), (''ton'', ''TON''),
      (''usdt'', ''USDT'')]"

text \<open>\<open>Object.keys(mobulaSymbols).find(key => mobulaSymbols[key] === symbol)\<close>\<close>

definition currencyOfSymbol :: "string \<Rightarrow> string option" where
  "currencyOfSymbol symbol = map_option fst (find (\<lambda>(key, sym). sym = symbol) mobulaSymbols)"

text \<open>The five assignments made in the \<open>else\<close> branch and again in the \<open>catch\<close> block.\<close>

definition hardcodedFallback :: "rateCache \<Rightarrow> rateCache" where
  "hardcodedFallback cache =
     cache(''bitcoin'' \<mapsto> JNum 60000, ''ethereum'' \<mapsto> JNum 3000, ''solana'' \<mapsto> JNum 150,
           ''ton'' \<mapsto> JNum 6, ''usdt'' \<mapsto> JNum 1)"

text \<open>
  The keys \<open>for (const symbol in data)\<close> enumerates. An array or a string enumerates its
  indices; numbers, booleans enumerate nothing.
\<close>

fun enumerableKeys :: "jsval \<Rightarrow> string list" where
  "enumerableKeys (JObj kvs) = remdups (map fst kvs)"
| "enumerableKeys (JArr xs) = map showNat [0..<length xs]"
| "enumerableKeys (JStr s) = map showNat [0..<length s]"
| "enumerableKeys v = []"

text \<open>
  The body of the \<open>for\<close> loop: the cache entry of the currency is assigned when
  \<open>currency && data[symbol] && data[symbol].USD\<close> is truthy.
\<close>

fun updateFromData :: "runtime \<Rightarrow> jsval \<Rightarrow> string list \<Rightarrow> rateCache \<Rightarrow> error + rateCache" where
  "updateFromData rt data [] cache = Inr cache"
| "updateFromData rt data (symbol # rest) cache =
     (case currencyOfSymbol symbol of
        None \<Rightarrow> updateFromData rt data rest cache
      | Some currency \<Rightarrow>
          (if currency = [] then updateFromData rt data rest cache
           else (case getProp rt data symbol of
                   Inl e \<Rightarrow> Inl e
                 | Inr entry \<Rightarrow>
                     (if \<not> truthy entry then updateFromData rt data rest cache
                      else (case getProp rt entry ''USD'' of
                              Inl e \<Rightarrow> Inl e
                            | Inr usd \<Rightarrow>
                                (if truthy usd
                                 then updateFromData rt data rest (cache(currency \<mapsto> usd))
                                 else updateFromData rt data rest cache))))))"

text \<open>
  The \<open>try\<close> block of \<open>updateAllExchangeRates\<close>, given the outcome of the
  \<open>fetch\<close>. An error of the block is returned with the cache at the moment of the throw.
\<close>

definition tryUpdate :: "runtime \<Rightarrow> error + response \<Rightarrow> rateCache \<Rightarrow> (error + unit) \<times> rateCache" where
  "tryUpdate rt reply cache =
     (case reply of
        Inl e \<Rightarrow> (Inl e, cache)
      | Inr resp \<Rightarrow>
          (case json resp of
             Inl e \<Rightarrow> (Inl e, cache)
           | Inr data \<Rightarrow>
               (if \<not> ok resp then
                  (case getProp rt data ''Message'' of
                     Inl e \<Rightarrow> (Inl e, cache)
                   | Inr m \<Rightarrow> (Inr (), hardcodedFallback cache))
                else
                  (case getProp rt data ''Response'' of
                     Inl e \<Rightarrow> (Inl e, cache)
                   | Inr r \<Rightarrow>
                       (if r \<noteq> JStr ''Error'' then
                          (case updateFromData rt data (enumerableKeys data) cache of
                             Inl e \<Rightarrow> (Inl e, cache)
                           | Inr cache' \<Rightarrow> (Inr (), cache'))
                        else
                          (case getProp rt data ''Message'' of
                             Inl e \<Rightarrow> (Inl e, cache)
                           | Inr m \<Rightarrow> (Inr (), hardcodedFallback cache)))))))"

text \<open>\<open>updateAllExchangeRates\<close>: the \<open>try\<close> block, and the \<open>catch\<close> block on an error.\<close>

definition updateAllExchangeRates :: "runtime \<Rightarrow> error + response \<Rightarrow> rateCache \<Rightarrow> rateCache" where
  "updateAllExchangeRates rt reply cache =
     (case tryUpdate rt reply cache of
        (Inl e, cache') \<Rightarrow> hardcodedFallback cache'
      | (Inr u, cache') \<Rightarrow> cache')"

text \<open>
  \<open>exchangeRateCache[currency] || 0\<close>. The cache is a plain object, so a name it does
  not own is looked up in its prototype.
\<close>

definition getExchangeRate :: "runtime \<Rightarrow> rateCache \<Rightarrow> string \<Rightarrow> jsval" where
  "getExchangeRate rt cache currency =
     (let v = (case cache currency of None \<Rightarrow> inherited rt OfObject currency | Some v \<Rightarrow> v)
      in if truthy v then v else JNum 0)"

text \<open>
  The three total failures the specification names: the fetch throws, the response is
  not ok, the body carries \<open>Response: 'Error'\<close>.
\<close>

definition totalFailure :: "runtime \<Rightarrow> error + response \<Rightarrow> bool" where
  "totalFailure rt reply =
     (case reply of
        Inl e \<Rightarrow> True
      | Inr resp \<Rightarrow>
          \<not> ok resp \<or>
          (case bodyJson resp of
             None \<Rightarrow> False
           | Some data \<Rightarrow> getProp rt (ofJson data) ''Response'' = Inr (JStr ''Error'')))"

text \<open>A successful refresh: an ok response whose JSON body carries no error indicator.\<close>

definition refreshSucceeds :: "runtime \<Rightarrow> error + response \<Rightarrow> bool" where
  "refreshSucceeds rt reply =
     (case reply of
        Inl e \<Rightarrow> False
      | Inr resp \<Rightarrow>
          ok resp \<and>
          (case bodyJson resp of
             None \<Rightarrow> False
           | Some data \<Rightarrow>
               (case getProp rt (ofJson data) ''Response'' of
                  Inl e \<Rightarrow> False
                | Inr r \<Rightarrow> r \<noteq> JStr ''Error'')))"

text \<open>The symbols present in a response body.\<close>

definition symbolsPresent :: "error + response \<Rightarrow> string set" where
  "symbolsPresent reply =
     (case reply of
        Inl e \<Rightarrow> {}
      | Inr resp \<Rightarrow>
          (case bodyJson resp of None \<Rightarrow> {} | Some data \<Rightarrow> set (enumerableKeys (ofJson data))))"

text \<open>Concrete feeds and a cache that holds older prices.\<close>

definition feedDown :: "error + response" where
  "feedDown = Inl (Error ''getaddrinfo ENOTFOUND'')"

definition feedBtcOnly :: "error + response" where
  "feedBtcOnly = Inr \<lparr>ok = True, status = 200, statusText = ''OK'',
     bodyJson = Some (VObj [(''BTC'', VObj [(''USD'', VNum 65000)])]), bodyText = []\<rparr>"

definition staleCache :: rateCache where
  "staleCache = [''bitcoin'' \<mapsto> JNum 1, ''ethereum'' \<mapsto> JNum 2500]"

section \<open>Network configuration and address derivation\<close>

record tokenInfo =
  tokenAddress :: string
  tokenDecimals :: nat

text \<open>
  An entry of \<open>networks\<close>. The \<open>lib\<close> member of the bitcoin entry is a parameter
  object of the bitcoin library and is part of the derivation taken as given below.
\<close>

record network =
  derivationPath :: string
  tokens :: "(string \<times> tokenInfo) list option"
  decimals :: nat

definition networks :: "string \<Rightarrow> network option" where
  "networks = map_of
     [(''bitcoin'', \<lparr>derivationPath = ''m/44'' @ [CHR 0x27] @ ''/0'' @ [CHR 0x27] @ ''/0''
                        @ [CHR 0x27] @ ''/0/0'',
                     tokens = None, decimals = 8\<rparr>),
      (''ethereum'', \<lparr>derivationPath = ''m/44'' @ [CHR 0x27] @ ''/60'' @ [CHR 0x27] @ ''/0''
                        @ [CHR 0x27] @ ''/0/0'',
                      tokens = Some [(''usdt'',
                        \<lparr>tokenAddress = ''0xdac17f958d2ee523a2206206994597c13d831ec7'',
                         tokenDecimals = 6\<rparr>)],
                      decimals = 18\<rparr>),
      (''solana'', \<lparr>derivationPath = ''m/44'' @ [CHR 0x27] @ ''/501'' @ [CHR 0x27] @ ''/0''
                        @ [CHR 0x27] @ ''/0'' @ [CHR 0x27],
                    tokens = None, decimals = 9\<rparr>),
      (''ton'', \<lparr>derivationPath = ''m/44'' @ [CHR 0x27] @ ''/607'' @ [CHR 0x27] @ ''/0''
                        @ [CHR 0x27] @ ''/0'' @ [CHR 0x27],
                 tokens = None, decimals = 9\<rparr>),
      (''tron'', \<lparr>derivationPath = ''m/44'' @ [CHR 0x27] @ ''/195'' @ [CHR 0x27] @ ''/0''
                        @ [CHR 0x27] @ ''/0/0'',
                  tokens = Some [(''usdt'',
                    \<lparr>tokenAddress = ''TXLAQ63Xg1NAzckPwKHvzw7CSEmLMEqcdj'', tokenDecimals = 6\<rparr>)],
                  decimals = 6\<rparr>)]"

text \<open>
  The chain libraries, each a function of the key material \<open>{seed, root, mnemonic}\<close> that
  returns an address or throws: the cryptography is not part of this development.
\<close>

record 'k chainLibs =
  bitcoinP2pkh :: "'k \<Rightarrow> string \<Rightarrow> error + string"
  solanaKeypair :: "'k \<Rightarrow> error + string"
  tonWallet :: "'k \<Rightarrow> error + string"
  tronFromPrivateKey :: "'k \<Rightarrow> string \<Rightarrow> error + string"
  ethersWalletFromPhrase :: "'k \<Rightarrow> error + string"

text \<open>\<open>network.path\<close>, a \<open>TypeError\<close> when the currency has no entry in \<open>networks\<close>.\<close>

definition networkPath :: "string \<Rightarrow> error + string" where
  "networkPath currency =
     (case networks currency of
        None \<Rightarrow> Inl (TypeError ''Cannot read properties of undefined (reading path)'')
      | Some n \<Rightarrow> Inr (derivationPath n))"

definition deriveAddress :: "'k chainLibs \<Rightarrow> string \<Rightarrow> 'k \<Rightarrow> error + string" where
  "deriveAddress libs currency keyMaterial =
     (if currency = ''bitcoin'' then
        (case networkPath currency of
           Inl e \<Rightarrow> Inl e | Inr p \<Rightarrow> bitcoinP2pkh libs keyMaterial p)
      else if currency = ''solana'' then solanaKeypair libs keyMaterial
      else if currency = ''ton'' then tonWallet libs keyMaterial
      else if currency = ''tron'' then
        (case networkPath currency of
           Inl e \<Rightarrow> Inl e | Inr p \<Rightarrow> tronFromPrivateKey libs keyMaterial p)
      else Inl (Error (''Unsupported currency for derivation: '' @ currency)))"

text \<open>The currencies \<open>startBot\<close> scans, and the address it computes for each of them.\<close>

definition currenciesToCheck :: "string list" where
  "currenciesToCheck = [''bitcoin'', ''ethereum'', ''solana'', ''ton'', ''tron'']"

definition scanAddress :: "'k chainLibs \<Rightarrow> string \<Rightarrow> 'k \<Rightarrow> error + string" where
  "scanAddress libs currency keyMaterial =
     (if currency = ''ethereum'' then ethersWalletFromPhrase libs keyMaterial
      else deriveAddress libs currency keyMaterial)"

text \<open>Libraries that answer with the name of the chain, for concrete runs.\<close>

definition stubLibs :: "unit chainLibs" where
  "stubLibs = \<lparr>bitcoinP2pkh = (\<lambda>k p. Inr ''btc-address''), solanaKeypair = (\<lambda>k. Inr ''sol-address''),
     tonWallet = (\<lambda>k. Inr ''ton-address''), tronFromPrivateKey = (\<lambda>k p. Inr ''trx-address''),
     ethersWalletFromPhrase = (\<lambda>k. Inr ''eth-address'')\<rparr>"

section \<open>Response extractor\<close>

text \<open>\<open>path.split('.')\<close>: the pieces between the dots; the empty string gives one empty piece.\<close>

fun splitDot :: "string \<Rightarrow> string list" where
  "splitDot [] = [[]]"
| "splitDot (c # cs) =
     (if c = CHR ''.'' then [] # splitDot cs
      else (case splitDot cs of [] \<Rightarrow> [[c]] | w # ws \<Rightarrow> (c # w) # ws))"

text \<open>
  A match of \<open>/(\w+)\[(\d+)\]/\<close> that starts at the head of the string. The word run is
  followed by a bracket, which is no word character, so the greedy run is the only one
  that can match; likewise the digit run before the closing bracket.
\<close>

definition matchAt :: "string \<Rightarrow> (string \<times> string) option" where
  "matchAt s =
     (let w = takeWhile isWordChar s; r = dropWhile isWordChar s in
      if w = [] then None
      else (case r of
              [] \<Rightarrow> None
            | b # r' \<Rightarrow>
                (if b \<noteq> CHR ''['' then None
                 else (let d = takeWhile isDigit r'; r'' = dropWhile isDigit r' in
                       if d = [] then None
                       else (case r'' of
                               [] \<Rightarrow> None
                             | e # t \<Rightarrow> if e = CHR '']'' then Some (w, d) else None)))))"

text \<open>\<open>i.match(/(\w+)\[(\d+)\]/)\<close>: the leftmost match anywhere in the piece.\<close>

fun matchIndexed :: "string \<Rightarrow> (string \<times> string) option" where
  "matchIndexed [] = None"
| "matchIndexed (c # cs) =
     (case matchAt (c # cs) of Some m \<Rightarrow> Some m | None \<Rightarrow> matchIndexed cs)"

text \<open>
  The callback of \<open>reduce\<close>:
  \<open>o && o[match[1]] ? o[match[1]][parseInt(match[2])] : undefined\<close> on a match,
  \<open>o && o[i]\<close> otherwise. The conjunction \<open>o && e\<close> is \<open>o\<close> itself when \<open>o\<close> is falsy.
\<close>

definition reduceStep :: "runtime \<Rightarrow> jsval \<Rightarrow> string \<Rightarrow> error + jsval" where
  "reduceStep rt obj i =
     (case matchIndexed i of
        Some (m1, m2) \<Rightarrow>
          (if \<not> truthy obj then Inr JUndefined
           else (case getProp rt obj m1 of
                   Inl e \<Rightarrow> Inl e
                 | Inr v \<Rightarrow>
                     if truthy v then getIndex rt v (decimalValue m2) else Inr JUndefined))
      | None \<Rightarrow> (if \<not> truthy obj then Inr obj else getProp rt obj i))"

fun reduce :: "(jsval \<Rightarrow> string \<Rightarrow> error + jsval) \<Rightarrow> jsval \<Rightarrow> string list \<Rightarrow> error + jsval" where
  "reduce f acc [] = Inr acc"
| "reduce f acc (x # xs) = (case f acc x of Inl e \<Rightarrow> Inl e | Inr acc' \<Rightarrow> reduce f acc' xs)"

definition getNestedValue :: "runtime \<Rightarrow> jsval \<Rightarrow> string \<Rightarrow> error + jsval" where
  "getNestedValue rt obj path = reduce (reduceStep rt) obj (splitDot path)"

text \<open>
  The names a piece of a path reads: the piece itself, or the word and the index of its
  match. A path is \<open>ownOnly\<close> when none of the names it reads is the name of a member
  that some kind of value inherits.
\<close>

definition pieceNames :: "string \<Rightarrow> string list" where
  "pieceNames i =
     (case matchIndexed i of
        Some (m1, m2) \<Rightarrow> [m1, showNat (decimalValue m2)]
      | None \<Rightarrow> [i])"

definition holders :: "holder list" where
  "holders = [OfObject, OfArray, OfString, OfNumber, OfBoolean]"

definition ownOnly :: "runtime \<Rightarrow> string \<Rightarrow> bool" where
  "ownOnly rt path =
     list_all (\<lambda>i. list_all (\<lambda>k. list_all (\<lambda>h. inheritedBy rt h k = None) holders)
                           (pieceNames i))
       (splitDot path)"

text \<open>
  The path language as the specification describes it: dotted segments, each a name or a
  name with one bracketed integer index. \<open>addressed\<close> follows the segments through
  objects and arrays: \<open>Found\<close> the value addressed, \<open>Missing\<close> when an object lacks the
  name or an array is shorter than the index, \<open>NotContainer\<close> when a segment is applied
  to a value that is no object (or, for its index, no array).
\<close>

datatype segment = Key string | KeyIndex string string

datatype lookup = Found jsval | Missing | NotContainer

fun addressed :: "jsval \<Rightarrow> segment list \<Rightarrow> lookup" where
  "addressed v [] = Found v"
| "addressed (JObj kvs) (Key k # rest) =
     (case map_of kvs k of None \<Rightarrow> Missing | Some w \<Rightarrow> addressed w rest)"
| "addressed (JObj kvs) (KeyIndex k d # rest) =
     (case map_of kvs k of
        None \<Rightarrow> Missing
      | Some (JArr xs) \<Rightarrow>
          (if decimalValue d < length xs then addressed (xs ! decimalValue d) rest else Missing)
      | Some w \<Rightarrow> NotContainer)"
| "addressed v (s # rest) = NotContainer"

fun renderSegment :: "segment \<Rightarrow> string" where
  "renderSegment (Key k) = k"
| "renderSegment (KeyIndex k d) = k @ ''['' @ d @ '']''"

fun renderPath :: "segment list \<Rightarrow> string" where
  "renderPath [] = []"
| "renderPath [s] = renderSegment s"
| "renderPath (s # t # rest) = renderSegment s @ ''.'' @ renderPath (t # rest)"

text \<open>
  A name has no dot and no bracket; an indexed name is a non-empty word and its index a
  non-empty digit string.
\<close>

fun wellFormed :: "segment \<Rightarrow> bool" where
  "wellFormed (Key k) = (CHR ''.'' \<notin> set k \<and> CHR ''['' \<notin> set k)"
| "wellFormed (KeyIndex k d) =
     (k \<noteq> [] \<and> list_all isWordChar k \<and> d \<noteq> [] \<and> list_all isDigit d)"

text \<open>The names of the segments of a path.\<close>

fun segmentName :: "segment \<Rightarrow> string" where
  "segmentName (Key k) = k"
| "segmentName (KeyIndex k d) = k"

text \<open>
  The specification's reading of the extractor: the addressed value when every segment
  resolves, absent otherwise.
\<close>

definition specExtract :: "jsval \<Rightarrow> segment list \<Rightarrow> jsval" where
  "specExtract v segs = (case addressed v segs of Found w \<Rightarrow> w | _ \<Rightarrow> JUndefined)"

section \<open>Conversion to BigInt\<close>

text \<open>
  \<open>BigInt(v)\<close>. A string is trimmed of white space (the ASCII part of it is modelled)
  and read as an optionally signed decimal literal or as an unsigned literal with prefix
  \<open>0x\<close>, \<open>0o\<close> or \<open>0b\<close>; the empty string is 0; anything else is a
  \<open>SyntaxError\<close>.
\<close>

definition isWhiteSpace :: "char \<Rightarrow> bool" where
  "isWhiteSpace c = ((of_char c :: nat) \<in> {9, 10, 11, 12, 13, 32})"

definition trim :: "string \<Rightarrow> string" where
  "trim s = rev (dropWhile isWhiteSpace (rev (dropWhile isWhiteSpace s)))"

definition radixDigit :: "char \<Rightarrow> nat option" where
  "radixDigit c =
     (if isDigit c then Some (digitValue c)
      else if (97::nat) \<le> of_char c \<and> of_char c \<le> (102::nat) then Some (of_char c - 87)
      else if (65::nat) \<le> of_char c \<and> of_char c \<le> (70::nat) then Some (of_char c - 55)
      else None)"

fun parseRadix :: "nat \<Rightarrow> int \<Rightarrow> string \<Rightarrow> int option" where
  "parseRadix base acc [] = Some acc"
| "parseRadix base acc (c # cs) =
     (case radixDigit c of
        None \<Rightarrow> None
      | Some v \<Rightarrow> if v < base then parseRadix base (acc * int base + int v) cs else None)"

definition parseDigits :: "nat \<Rightarrow> string \<Rightarrow> int option" where
  "parseDigits base s = (if s = [] then None else parseRadix base 0 s)"

definition cannotConvert :: "string \<Rightarrow> error + int" where
  "cannotConvert s = Inl (SyntaxError (''Cannot convert '' @ s @ '' to a BigInt''))"

definition stringToBigInt :: "string \<Rightarrow> error + int" where
  "stringToBigInt s =
     (let t = trim s in
      if t = [] then Inr 0
      else if take 2 t \<in> {''0x'', ''0X''} then
        (case parseDigits 16 (drop 2 t) of None \<Rightarrow> cannotConvert s | Some n \<Rightarrow> Inr n)
      else if take 2 t \<in> {''0o'', ''0O''} then
        (case parseDigits 8 (drop 2 t) of None \<Rightarrow> cannotConvert s | Some n \<Rightarrow> Inr n)
      else if take 2 t \<in> {''0b'', ''0B''} then
        (case parseDigits 2 (drop 2 t) of None \<Rightarrow> cannotConvert s | Some n \<Rightarrow> Inr n)
      else if hd t = CHR ''-'' then
        (case parseDigits 10 (tl t) of None \<Rightarrow> cannotConvert s | Some n \<Rightarrow> Inr (- n))
      else if hd t = CHR ''+'' then
        (case parseDigits 10 (tl t) of None \<Rightarrow> cannotConvert s | Some n \<Rightarrow> Inr n)
      else
        (case parseDigits 10 t of None \<Rightarrow> cannotConvert s | Some n \<Rightarrow> Inr n))"

definition isInteger :: "rat \<Rightarrow> bool" where
  "isInteger r = (of_int \<lfloor>r\<rfloor> = r)"

text \<open>
  A number converts when it is an integer, a boolean to 0 or 1. An array converts through
  its string, the join of its elements: the empty array is the empty string, a
  one-element array the string of its element (empty for \<open>null\<close> and \<open>undefined\<close>, in
  exponent form or with a fraction for a number that is not an integer below 1e21), and a
  longer array has a comma. An object converts through \<open>[object Object]\<close>, a builtin
  through its primitive value.
\<close>

fun primitiveToBigInt :: "jsval \<Rightarrow> error + int" where
  "primitiveToBigInt JUndefined = Inl (TypeError ''Cannot convert undefined to a BigInt'')"
| "primitiveToBigInt JNull = Inl (TypeError ''Cannot convert null to a BigInt'')"
| "primitiveToBigInt (JBool b) = Inr (if b then 1 else 0)"
| "primitiveToBigInt (JNum r) =
     (if isInteger r then Inr \<lfloor>r\<rfloor>
      else Inl (RangeError ''The number cannot be converted to a BigInt because it is not an integer''))"
| "primitiveToBigInt (JStr s) = stringToBigInt s"
| "primitiveToBigInt v = Inl (TypeError ''Cannot convert object to primitive value'')"

fun toBigInt :: "runtime \<Rightarrow> jsval \<Rightarrow> error + int" where
  "toBigInt rt (JArr []) = Inr 0"
| "toBigInt rt (JArr [JUndefined]) = Inr 0"
| "toBigInt rt (JArr [JNull]) = Inr 0"
| "toBigInt rt (JArr [JBool b]) = cannotConvert (if b then ''true'' else ''false'')"
| "toBigInt rt (JArr [JNum r]) =
     (if isInteger r \<and> \<bar>r\<bar> < 10 ^ 21 then Inr \<lfloor>r\<rfloor> else cannotConvert ''number'')"
| "toBigInt rt (JArr [JStr s]) = stringToBigInt s"
| "toBigInt rt (JArr [JArr ys]) = toBigInt rt (JArr ys)"
| "toBigInt rt (JArr [JObj kvs]) = cannotConvert ''[object Object]''"
| "toBigInt rt (JArr [JBuiltin b]) = cannotConvert b"
| "toBigInt rt (JArr (x # y # zs)) = cannotConvert ''array''"
| "toBigInt rt (JObj kvs) = cannotConvert ''[object Object]''"
| "toBigInt rt (JBuiltin b) = primitiveToBigInt (primitiveOf rt b)"
| "toBigInt rt v = primitiveToBigInt v"

section \<open>Double precision\<close>

text \<open>
  The nearest double of a rational: a significand \<open>n\<close> of 53 bits, ties to the even
  one, times a power of two whose exponent \<open>e\<close> is at least that of the subnormal
  numbers, and \<open>None\<close> where the result is an infinity (at 2^1024 and above).
\<close>

function log2floor :: "int \<Rightarrow> nat" where
  "log2floor n = (if n < 2 then 0 else Suc (log2floor (n div 2)))"
  by pat_completeness auto
termination
  by (relation "measure nat") auto

declare log2floor.simps [simp del]

definition pow2 :: "int \<Rightarrow> rat" where
  "pow2 e = (if e \<ge> 0 then 2 ^ nat e else 1 / 2 ^ nat (- e))"

text \<open>The integer part of the binary logarithm of a positive rational.\<close>

definition binaryExponent :: "rat \<Rightarrow> int" where
  "binaryExponent x =
     (if x \<ge> 1 then int (log2floor \<lfloor>x\<rfloor>)
      else (let k = int (log2floor \<lfloor>1 / x\<rfloor>) in
            if x = pow2 (- k) then - k else - k - 1))"

definition roundHalfEven :: "rat \<Rightarrow> int" where
  "roundHalfEven m =
     (let f = \<lfloor>m\<rfloor>; d = m - of_int f in
      if d < 1 / 2 then f else if d > 1 / 2 then f + 1 else if even f then f else f + 1)"

definition toDouble :: "rat \<Rightarrow> rat option" where
  "toDouble x =
     (if x = 0 then Some 0
      else (let e = max (binaryExponent \<bar>x\<bar> - 52) (- 1074);
                n = roundHalfEven (\<bar>x\<bar> / pow2 e) in
            if e > 971 \<or> (e = 971 \<and> n \<ge> 2 ^ 53) then None
            else Some (if x < 0 then - (of_int n * pow2 e) else of_int n * pow2 e)))"

text \<open>
  \<open>Number(s)\<close> for a string, \<open>None\<close> where it is \<open>NaN\<close> or an infinity: the trimmed
  string is empty (0), an unsigned literal with prefix \<open>0x\<close>, \<open>0o\<close> or \<open>0b\<close>, or an
  optionally signed decimal literal with an optional fraction and an optional exponent.
\<close>

definition splitDigits :: "string \<Rightarrow> string \<times> string" where
  "splitDigits s = (takeWhile isDigit s, dropWhile isDigit s)"

definition signedDigits :: "string \<Rightarrow> int option" where
  "signedDigits s =
     (case s of
        [] \<Rightarrow> None
      | c # cs \<Rightarrow>
          (if c = CHR ''-'' then map_option uminus (parseDigits 10 cs)
           else if c = CHR ''+'' then parseDigits 10 cs
           else parseDigits 10 s))"

definition unsignedDecimal :: "string \<Rightarrow> rat option" where
  "unsignedDecimal s =
     (let (ip, r1) = splitDigits s;
          (dot, fp, r2) = (case r1 of
                             [] \<Rightarrow> (False, [], [])
                           | c # t \<Rightarrow> if c = CHR ''.'' then (True, fst (splitDigits t), snd (splitDigits t))
                                      else (False, [], r1))
      in if ip = [] \<and> fp = [] then None
         else (let mantissa = of_int (the (parseRadix 10 0 (ip @ fp))) / 10 ^ length fp in
               case r2 of
                 [] \<Rightarrow> Some mantissa
               | c # t \<Rightarrow>
                   (if c = CHR ''e'' \<or> c = CHR ''E'' then
                      (case signedDigits t of
                         None \<Rightarrow> None
                       | Some ex \<Rightarrow> Some (if ex \<ge> 0 then mantissa * 10 ^ nat ex
                                         else mantissa / 10 ^ nat (- ex)))
                    else None)))"

definition stringToNumber :: "string \<Rightarrow> rat option" where
  "stringToNumber s =
     (let t = trim s in
      if t = [] then Some 0
      else if take 2 t \<in> {''0x'', ''0X''} then
        (case parseDigits 16 (drop 2 t) of None \<Rightarrow> None | Some n \<Rightarrow> toDouble (of_int n))
      else if take 2 t \<in> {''0o'', ''0O''} then
        (case parseDigits 8 (drop 2 t) of None \<Rightarrow> None | Some n \<Rightarrow> toDouble (of_int n))
      else if take 2 t \<in> {''0b'', ''0B''} then
        (case parseDigits 2 (drop 2 t) of None \<Rightarrow> None | Some n \<Rightarrow> toDouble (of_int n))
      else if hd t = CHR ''-'' then
        (case unsignedDecimal (tl t) of None \<Rightarrow> None | Some q \<Rightarrow> toDouble (- q))
      else if hd t = CHR ''+'' then
        (case unsignedDecimal (tl t) of None \<Rightarrow> None | Some q \<Rightarrow> toDouble q)
      else (case unsignedDecimal t of None \<Rightarrow> None | Some q \<Rightarrow> toDouble q))"

text \<open>
  The number a value converts to in a product, \<open>None\<close> where it is \<open>NaN\<close> or an
  infinity. An array converts through its string, as for \<open>BigInt\<close>; a number inside a
  one-element array is written and read back unchanged.
\<close>

fun primitiveToNumber :: "jsval \<Rightarrow> rat option" where
  "primitiveToNumber JNull = Some 0"
| "primitiveToNumber (JBool b) = Some (if b then 1 else 0)"
| "primitiveToNumber (JNum r) = Some r"
| "primitiveToNumber (JStr s) = stringToNumber s"
| "primitiveToNumber v = None"

fun toNumber :: "runtime \<Rightarrow> jsval \<Rightarrow> rat option" where
  "toNumber rt (JArr []) = Some 0"
| "toNumber rt (JArr [JUndefined]) = Some 0"
| "toNumber rt (JArr [JNull]) = Some 0"
| "toNumber rt (JArr [JNum r]) = Some r"
| "toNumber rt (JArr [JStr s]) = stringToNumber s"
| "toNumber rt (JArr [JArr ys]) = toNumber rt (JArr ys)"
| "toNumber rt (JArr xs) = None"
| "toNumber rt (JObj kvs) = None"
| "toNumber rt (JBuiltin b) = primitiveToNumber (primitiveOf rt b)"
| "toNumber rt v = primitiveToNumber v"

text \<open>
  \<open>BigInt(Math.round(v * 10 ** d))\<close>: the product of two doubles is the nearest double
  of the exact product, \<open>Math.round\<close> takes the integer nearest to it, halves upwards,
  and \<open>BigInt\<close> throws (\<open>None\<close>) when there is no such finite number.
\<close>

definition roundScaled :: "runtime \<Rightarrow> jsval \<Rightarrow> nat \<Rightarrow> int option" where
  "roundScaled rt v d =
     (case toNumber rt v of
        None \<Rightarrow> None
      | Some x \<Rightarrow>
          (case toDouble (10 ^ d) of
             None \<Rightarrow> None
           | Some k \<Rightarrow>
               (case toDouble (x * k) of
                  None \<Rightarrow> None
                | Some y \<Rightarrow> Some \<lfloor>y + 1 / 2\<rfloor>)))"

text \<open>
  The amount in smallest units that a decimal amount denotes exactly, for an asset with
  \<open>d\<close> decimals.
\<close>

definition exactUnits :: "rat \<Rightarrow> nat \<Rightarrow> rat" where
  "exactUnits amount d = amount * 10 ^ d"

section \<open>Balance resolution pipeline\<close>

text \<open>
  The object literal \<open>apiProviders\<close>, as the list of its own members; the two API keys
  come from the process environment.
\<close>

definition apiProviders :: "(string \<Rightarrow> string option) \<Rightarrow> (string \<times> provider list) list" where
  "apiProviders env =
     [(''ethereum'',
         [\<lparr>name = ''etherscan'',
           baseURL = ''https://api.etherscan.io/v2/api?chainid=1&module=account&action=balance&address={address}&tag=latest'',
           apiKey = env ''ETHERSCAN_API_KEY'', responsePath = Some ''result'', rpcMethod = None,
           isText = False\<rparr>]),
      (''bitcoin'', []),
      (''tron'',
         [\<lparr>name = ''trongrid'', baseURL = ''https://api.trongrid.io/v1/accounts/{address}'',
           apiKey = None, responsePath = Some ''data[0].balance'', rpcMethod = None,
           isText = False\<rparr>]),
      (''solana'',
         [\<lparr>name = ''solana'', baseURL = ''https://api.mainnet-beta.solana.com'', apiKey = None,
           responsePath = Some ''value'', rpcMethod = Some ''getBalance'', isText = False\<rparr>]),
      (''ton'',
         [\<lparr>name = ''toncenter'', baseURL = ''https://toncenter.com/api/v2/jsonRPC'',
           apiKey = env ''TONCENTER_API_KEY'', responsePath = None, rpcMethod = None,
           isText = False\<rparr>])]"

text \<open>
  A member of a plain object used as a table: one it owns, or the value it inherits under
  that name (\<open>undefined\<close> when it inherits none).
\<close>

datatype 'a member = Own 'a | Inherited jsval

definition tableMember :: "runtime \<Rightarrow> (string \<times> 'a) list \<Rightarrow> string \<Rightarrow> 'a member" where
  "tableMember rt table k =
     (case map_of table k of Some v \<Rightarrow> Own v | None \<Rightarrow> Inherited (inherited rt OfObject k))"

text \<open>
  What the pipeline does to the outside, in order. A request records on whose behalf it
  is issued: the aggregator of the bitcoin branch, a provider of the list, or a token
  lookup.
\<close>

datatype origin = Aggregator | ViaProvider string | TokenLookup string

datatype call =
    Fetch string
  | SolanaGetBalance string string
  | TonGetBalance string "string option" string
  | EthersBalanceOf string string
  | TronBalanceOf string string

datatype event =
    Request origin call
  | Slept nat
  | AttemptError string nat string
  | ConsoleError string

text \<open>
  The outside world. A reply may depend on everything that happened before, so the
  oracles take the history. \<open>fetch\<close> answers an HTTP request or throws; \<open>rpc\<close> answers a
  call through one of the client libraries (the solana and TON clients, an ethers or
  tronweb contract read) with an integer amount or throws. \<open>js\<close> is the runtime with
  its prototypes. \<open>display v\<close> is the text of \<open>v\<close> in a template string.
\<close>

record world =
  fetch :: "event list \<Rightarrow> string \<Rightarrow> error + response"
  rpc :: "event list \<Rightarrow> call \<Rightarrow> error + int"
  js :: runtime
  display :: "jsval \<Rightarrow> string"
  processEnv :: "string \<Rightarrow> string option"

text \<open>\<open>apiProviders[currency]\<close>\<close>

definition providersOf :: "world \<Rightarrow> string \<Rightarrow> provider list member" where
  "providersOf w currency = tableMember (js w) (apiProviders (processEnv w)) currency"

record balanceResult =
  native :: int
  resultTokens :: "(string \<times> int) list option"

definition zeroBalance :: balanceResult where
  "zeroBalance = \<lparr>native = 0, resultTokens = None\<rparr>"

definition doFetch :: "world \<Rightarrow> origin \<Rightarrow> string \<Rightarrow> event list \<Rightarrow> (error + response) \<times> event list" where
  "doFetch w who url tr = (fetch w tr url, tr @ [Request who (Fetch url)])"

definition doRpc :: "world \<Rightarrow> origin \<Rightarrow> call \<Rightarrow> event list \<Rightarrow> (error + int) \<times> event list" where
  "doRpc w who c tr = (rpc w tr c, tr @ [Request who c])"

text \<open>\<open>BigInt(Math.round(data.balance * 10 ** d))\<close> on a parsed body.\<close>

definition scaledBalance :: "world \<Rightarrow> jsval \<Rightarrow> nat \<Rightarrow> error + int" where
  "scaledBalance w data d =
     (case getProp (js w) data ''balance'' of
        Inl e \<Rightarrow> Inl e
      | Inr b \<Rightarrow>
          (case roundScaled (js w) b d of
             None \<Rightarrow> Inl (RangeError ''The number cannot be converted to a BigInt because it is not an integer'')
           | Some n \<Rightarrow> Inr n))"

text \<open>
  The \<open>try\<close> block of the bitcoin branch: \<open>Some\<close> the result it returns, \<open>None\<close> when the
  response is not ok and control leaves the block.
\<close>

definition bitcoinResult :: "world \<Rightarrow> response \<Rightarrow> error + balanceResult option" where
  "bitcoinResult w resp =
     (if ok resp then
        (case json resp of
           Inl e \<Rightarrow> Inl e
         | Inr data \<Rightarrow>
             (case scaledBalance w data 8 of
                Inl e \<Rightarrow> Inl e
              | Inr balanceInSatoshis \<Rightarrow>
                  Inr (Some \<lparr>native = balanceInSatoshis, resultTokens = None\<rparr>)))
      else Inr None)"

definition bitcoinTry :: "world \<Rightarrow> string \<Rightarrow> event list \<Rightarrow> (error + balanceResult option) \<times> event list" where
  "bitcoinTry w address tr =
     (case doFetch w Aggregator (''https://aggregratorserver.onrender.com/balance/'' @ address) tr of
        (Inl e, tr') \<Rightarrow> (Inl e, tr')
      | (Inr resp, tr') \<Rightarrow> (bitcoinResult w resp, tr'))"

definition bitcoinBranch :: "world \<Rightarrow> string \<Rightarrow> event list \<Rightarrow> (error + balanceResult) \<times> event list" where
  "bitcoinBranch w address tr =
     (case bitcoinTry w address tr of
        (Inr (Some r), tr') \<Rightarrow> (Inr r, tr')
      | (Inr None, tr') \<Rightarrow> (Inr zeroBalance, tr')
      | (Inl e, tr') \<Rightarrow>
          (Inr zeroBalance, tr' @ [ConsoleError (''Error fetching from aggregator: '' @ message e)]))"

text \<open>
  \<open>subject.replace(pattern, replacement)\<close> with a string pattern: the first occurrence
  only. (The dollar patterns of a replacement string are not modelled; an address has no
  dollar sign.)
\<close>

fun replaceFirst :: "string \<Rightarrow> string \<Rightarrow> string \<Rightarrow> string" where
  "replaceFirst pat rep [] = (if pat = [] then rep else [])"
| "replaceFirst pat rep (c # cs) =
     (if take (length pat) (c # cs) = pat then rep @ drop (length pat) (c # cs)
      else c # replaceFirst pat rep cs)"

text \<open>The request URL of the generic REST handler.\<close>

definition requestUrl :: "provider \<Rightarrow> string \<Rightarrow> string" where
  "requestUrl p address =
     (let url = replaceFirst ''{address}'' address (baseURL p) in
      case apiKey p of
        None \<Rightarrow> url
      | Some k \<Rightarrow> if k = [] then url else url @ ''&apikey='' @ k)"

definition statusError :: "nat \<Rightarrow> error" where
  "statusError st =
     (if st = 429 then Error ''API request failed with status 429 (Rate Limited)''
      else Error (''API request failed with status '' @ showNat st))"

text \<open>\<open>currency === 'tron' && data.data && data.data.length === 0\<close>\<close>

definition tronEmptyAccount :: "runtime \<Rightarrow> string \<Rightarrow> jsval \<Rightarrow> error + bool" where
  "tronEmptyAccount rt currency data =
     (if currency \<noteq> ''tron'' then Inr False
      else (case getProp rt data ''data'' of
              Inl e \<Rightarrow> Inl e
            | Inr dd \<Rightarrow>
                (if \<not> truthy dd then Inr False
                 else (case getProp rt dd ''length'' of
                         Inl e \<Rightarrow> Inl e
                       | Inr l \<Rightarrow> Inr (l = JNum 0)))))"

text \<open>\<open>provider.name === 'etherscan' && data.status !== '1'\<close>, which throws.\<close>

definition etherscanCheck :: "world \<Rightarrow> provider \<Rightarrow> jsval \<Rightarrow> error + unit" where
  "etherscanCheck w p data =
     (if name p \<noteq> ''etherscan'' then Inr ()
      else (case getProp (js w) data ''status'' of
              Inl e \<Rightarrow> Inl e
            | Inr s \<Rightarrow>
                (if s \<noteq> JStr ''1'' then
                   (case getProp (js w) data ''message'' of
                      Inl e \<Rightarrow> Inl e
                    | Inr m \<Rightarrow> Inl (Error (''Etherscan API error: '' @ display w m)))
                 else Inr ())))"

text \<open>\<open>getNestedValue(data, provider.responsePath)\<close>; a provider without a path throws in \<open>split\<close>.\<close>

definition nestedValueAt :: "runtime \<Rightarrow> jsval \<Rightarrow> string option \<Rightarrow> error + jsval" where
  "nestedValueAt rt data rp =
     (case rp of
        None \<Rightarrow> Inl (TypeError ''Cannot read properties of undefined (reading split)'')
      | Some path \<Rightarrow> getNestedValue rt data path)"

text \<open>The branch for \<open>mempool_space\<close> and \<open>blockstream\<close>.\<close>

definition statsBalance :: "runtime \<Rightarrow> jsval \<Rightarrow> string option \<Rightarrow> error + int" where
  "statsBalance rt data rp =
     (case nestedValueAt rt data rp of
        Inl e \<Rightarrow> Inl e
      | Inr stats \<Rightarrow>
          (if \<not> truthy stats then Inr 0
           else (case getProp rt stats ''funded_txo_sum'' of
                   Inl e \<Rightarrow> Inl e
                 | Inr f \<Rightarrow>
                     (case toBigInt rt f of
                        Inl e \<Rightarrow> Inl e
                      | Inr funded \<Rightarrow>
                          (case getProp rt stats ''spent_txo_sum'' of
                             Inl e \<Rightarrow> Inl e
                           | Inr sp \<Rightarrow>
                               (case toBigInt rt sp of
                                  Inl e \<Rightarrow> Inl e
                                | Inr spent \<Rightarrow> Inr (funded - spent)))))))"

text \<open>
  The branch for \<open>blockcypher\<close> and the final \<open>else\<close>, which are the same code: an
  extracted value that is neither \<open>undefined\<close> nor \<open>null\<close> goes through \<open>BigInt\<close>,
  and the balance stays \<open>0n\<close> otherwise.
\<close>

definition rawBalance :: "runtime \<Rightarrow> jsval \<Rightarrow> string option \<Rightarrow> error + int" where
  "rawBalance rt data rp =
     (case nestedValueAt rt data rp of
        Inl e \<Rightarrow> Inl e
      | Inr raw \<Rightarrow> if raw \<noteq> JUndefined \<and> raw \<noteq> JNull then toBigInt rt raw else Inr 0)"

text \<open>
  The first half of the \<open>try\<close> block: the native balance, or the early return for an
  empty tron account. The solana client resolves to a Number, which is assigned and
  returned as it is, where every other branch assigns a BigInt; the result keeps the
  integer that either denotes.
\<close>

datatype nativeStep = Balance int | Return balanceResult

definition restResult :: "world \<Rightarrow> string \<Rightarrow> provider \<Rightarrow> response \<Rightarrow> error + nativeStep" where
  "restResult w currency p resp =
     (if \<not> ok resp then Inl (statusError (status resp))
      else (case (if isText p then Inr (JStr (bodyText resp)) else json resp) of
              Inl e \<Rightarrow> Inl e
            | Inr data \<Rightarrow>
                (case tronEmptyAccount (js w) currency data of
                   Inl e \<Rightarrow> Inl e
                 | Inr True \<Rightarrow> Inr (Return \<lparr>native = 0, resultTokens = Some []\<rparr>)
                 | Inr False \<Rightarrow>
                     (case etherscanCheck w p data of
                        Inl e \<Rightarrow> Inl e
                      | Inr u \<Rightarrow>
                          (if name p = ''mempool_space'' \<or> name p = ''blockstream'' then
                             (case statsBalance (js w) data (responsePath p) of
                                Inl e \<Rightarrow> Inl e
                              | Inr b \<Rightarrow> Inr (Balance b))
                           else
                             (case rawBalance (js w) data (responsePath p) of
                                Inl e \<Rightarrow> Inl e
                              | Inr b \<Rightarrow> Inr (Balance b)))))))"

definition restBalance :: "world \<Rightarrow> string \<Rightarrow> string \<Rightarrow> provider \<Rightarrow> event list
     \<Rightarrow> (error + nativeStep) \<times> event list" where
  "restBalance w currency address p tr =
     (case doFetch w (ViaProvider (name p)) (requestUrl p address) tr of
        (Inl e, tr') \<Rightarrow> (Inl e, tr')
      | (Inr resp, tr') \<Rightarrow> (restResult w currency p resp, tr'))"

definition nativeBalance :: "world \<Rightarrow> string \<Rightarrow> string \<Rightarrow> provider \<Rightarrow> event list
     \<Rightarrow> (error + nativeStep) \<times> event list" where
  "nativeBalance w currency address p tr =
     (if rpcMethod p = Some ''getBalance'' then
        (case doRpc w (ViaProvider (name p)) (SolanaGetBalance (baseURL p) address) tr of
           (Inl e, tr') \<Rightarrow> (Inl e, tr')
         | (Inr b, tr') \<Rightarrow> (Inr (Balance b), tr'))
      else if name p = ''toncenter'' then
        (case doRpc w (ViaProvider (name p)) (TonGetBalance (baseURL p) (apiKey p) address) tr of
           (Inl e, tr') \<Rightarrow> (Inl e, tr')
         | (Inr b, tr') \<Rightarrow> (Inr (Balance b), tr'))
      else restBalance w currency address p tr)"

text \<open>
  The balance of one token. On ethereum a failing lookup throws out of the loop; on tron
  each lookup has its own \<open>try\<close> and \<open>catch\<close>, which logs and leaves the balance \<open>0n\<close>.
\<close>

definition usdtResult :: "world \<Rightarrow> nat \<Rightarrow> response \<Rightarrow> error + int" where
  "usdtResult w d resp =
     (if ok resp then
        (case json resp of
           Inl e \<Rightarrow> Inl e
         | Inr data \<Rightarrow> scaledBalance w data d)
      else Inr 0)"

definition usdtFetch :: "world \<Rightarrow> string \<Rightarrow> string \<Rightarrow> nat \<Rightarrow> event list
     \<Rightarrow> (error + int) \<times> event list" where
  "usdtFetch w token url d tr =
     (case doFetch w (TokenLookup token) url tr of
        (Inl e, tr') \<Rightarrow> (Inl e, tr')
      | (Inr resp, tr') \<Rightarrow> (usdtResult w d resp, tr'))"

definition tokenBalanceOf :: "world \<Rightarrow> string \<Rightarrow> string \<Rightarrow> string \<Rightarrow> tokenInfo \<Rightarrow> event list
     \<Rightarrow> (error + int) \<times> event list" where
  "tokenBalanceOf w currency address token info tr =
     (if currency = ''ethereum'' then
        (if token = ''usdt'' then
           usdtFetch w token (''https://aggregratorserver.onrender.com/balance/usdt/erc/'' @ address)
             (tokenDecimals info) tr
         else doRpc w (TokenLookup token) (EthersBalanceOf (tokenAddress info) address) tr)
      else if currency = ''tron'' then
        (if token = ''usdt'' then
           (case usdtFetch w token
                   (''https://aggregratorserver.onrender.com/balance/usdt/trc/'' @ address)
                   (tokenDecimals info) tr of
              (Inl e, tr') \<Rightarrow>
                (Inr 0, tr' @ [ConsoleError (''Error fetching TRC-20 USDT balance for '' @ address
                                               @ '': '' @ message e)])
            | (Inr b, tr') \<Rightarrow> (Inr b, tr'))
         else
           (case doRpc w (TokenLookup token) (TronBalanceOf (tokenAddress info) address) tr of
              (Inl e, tr') \<Rightarrow>
                (Inr 0, tr' @ [ConsoleError (''Error reading TRC-20 contract for '' @ address
                                               @ '': '' @ message e)])
            | (Inr b, tr') \<Rightarrow> (Inr b, tr')))
      else (Inr 0, tr))"

text \<open>
  \<open>for (const token in network.tokens)\<close>: a balance above zero is assigned to
  \<open>tokenBalances[token]\<close>.
\<close>

fun assign :: "string \<Rightarrow> int \<Rightarrow> (string \<times> int) list \<Rightarrow> (string \<times> int) list" where
  "assign k v [] = [(k, v)]"
| "assign k v ((k', v') # kvs) = (if k = k' then (k, v) # kvs else (k', v') # assign k v kvs)"

fun tokenLoop :: "world \<Rightarrow> string \<Rightarrow> string \<Rightarrow> (string \<times> tokenInfo) list \<Rightarrow> (string \<times> int) list
     \<Rightarrow> event list \<Rightarrow> (error + (string \<times> int) list) \<times> event list" where
  "tokenLoop w currency address [] tokenBalances tr = (Inr tokenBalances, tr)"
| "tokenLoop w currency address ((token, info) # rest) tokenBalances tr =
     (case tokenBalanceOf w currency address token info tr of
        (Inl e, tr') \<Rightarrow> (Inl e, tr')
      | (Inr tokenBalance, tr') \<Rightarrow>
          tokenLoop w currency address rest
            (if tokenBalance > 0 then assign token tokenBalance tokenBalances else tokenBalances)
            tr')"

text \<open>
  The second half of the \<open>try\<close> block, from \<open>const result = { native: balance }\<close> to
  \<open>return result\<close>. Reading \<open>network.tokens\<close> throws when the currency has no entry in
  \<open>networks\<close>.
\<close>

definition withTokens :: "world \<Rightarrow> string \<Rightarrow> string \<Rightarrow> network option \<Rightarrow> int \<Rightarrow> event list
     \<Rightarrow> (error + balanceResult) \<times> event list" where
  "withTokens w currency address net balance tr =
     (case net of
        None \<Rightarrow> (Inl (TypeError ''Cannot read properties of undefined (reading tokens)''), tr)
      | Some n \<Rightarrow>
          (case tokens n of
             None \<Rightarrow> (Inr \<lparr>native = balance, resultTokens = None\<rparr>, tr)
           | Some toks \<Rightarrow>
               (case tokenLoop w currency address toks [] tr of
                  (Inl e, tr') \<Rightarrow> (Inl e, tr')
                | (Inr tokenBalances, tr') \<Rightarrow>
                    (Inr \<lparr>native = balance,
                          resultTokens = (if tokenBalances \<noteq> [] then Some tokenBalances else None)\<rparr>,
                     tr'))))"

text \<open>The whole \<open>try\<close> block: one attempt with one provider.\<close>

definition attempt :: "world \<Rightarrow> string \<Rightarrow> string \<Rightarrow> provider \<Rightarrow> network option \<Rightarrow> event list
     \<Rightarrow> (error + balanceResult) \<times> event list" where
  "attempt w currency address p net tr =
     (case nativeBalance w currency address p tr of
        (Inl e, tr') \<Rightarrow> (Inl e, tr')
      | (Inr (Return r), tr') \<Rightarrow> (Inr r, tr')
      | (Inr (Balance b), tr') \<Rightarrow> withTokens w currency address net b tr')"

text \<open>
  \<open>while (retries > 0)\<close> with its \<open>catch\<close> block: \<open>Some\<close> the result returned from
  inside the loop, \<open>None\<close> when the loop is left without one.
\<close>

fun retryLoop :: "world \<Rightarrow> string \<Rightarrow> string \<Rightarrow> provider \<Rightarrow> network option \<Rightarrow> nat \<Rightarrow> nat
     \<Rightarrow> event list \<Rightarrow> (error + balanceResult option) \<times> event list" where
  "retryLoop w currency address p net 0 delay tr = (Inr None, tr)"
| "retryLoop w currency address p net (Suc retries) delay tr =
     (case attempt w currency address p net tr of
        (Inr r, tr') \<Rightarrow> (Inr (Some r), tr')
      | (Inl e, tr') \<Rightarrow>
          (if retries > 0 then
             retryLoop w currency address p net retries (delay * 2)
               (tr' @ [AttemptError (name p) retries (message e), Slept delay])
           else (Inr None, tr' @ [AttemptError (name p) retries (message e)])))"

text \<open>\<open>for (const provider of providers)\<close>, and the \<open>return { native: 0n }\<close> after it.\<close>

fun providersLoop :: "world \<Rightarrow> string \<Rightarrow> string \<Rightarrow> network option \<Rightarrow> provider list \<Rightarrow> event list
     \<Rightarrow> (error + balanceResult) \<times> event list" where
  "providersLoop w currency address net [] tr = (Inr zeroBalance, tr)"
| "providersLoop w currency address net (p # ps) tr =
     (case retryLoop w currency address p net 3 4000 tr of
        (Inl e, tr') \<Rightarrow> (Inl e, tr')
      | (Inr (Some r), tr') \<Rightarrow> (Inr r, tr')
      | (Inr None, tr') \<Rightarrow> providersLoop w currency address net ps tr')"

text \<open>The log line of the branch \<open>!providers || providers.length === 0\<close>.\<close>

definition noProviders :: "string \<Rightarrow> event list \<Rightarrow> event list" where
  "noProviders currency tr =
     (if currency \<noteq> ''ton'' then tr @ [ConsoleError (''No providers configured for '' @ currency)]
      else tr)"

text \<open>
  \<open>getBalance\<close>. The test \<open>!providers || providers.length === 0\<close> lets pass every
  truthy value whose \<open>length\<close> is not 0; a value inherited from the prototype is a
  function or the prototype itself, which \<open>for...of\<close> cannot iterate, and that
  \<open>TypeError\<close> is thrown outside every \<open>try\<close>. A currency with a list of its own has
  an entry of its own in \<open>networks\<close>.
\<close>

definition getBalance :: "world \<Rightarrow> string \<Rightarrow> string \<Rightarrow> event list
     \<Rightarrow> (error + balanceResult) \<times> event list" where
  "getBalance w currency address tr =
     (if currency = ''bitcoin'' then bitcoinBranch w address tr
      else (case providersOf w currency of
              Own ps \<Rightarrow>
                (if length ps = 0 then (Inr zeroBalance, noProviders currency tr)
                 else providersLoop w currency address (networks currency) ps tr)
            | Inherited v \<Rightarrow>
                (if \<not> truthy v then (Inr zeroBalance, noProviders currency tr)
                 else (case getProp (js w) v ''length'' of
                         Inl e \<Rightarrow> (Inl e, tr)
                       | Inr l \<Rightarrow>
                           (if l = JNum 0 then (Inr zeroBalance, noProviders currency tr)
                            else (Inl (TypeError ''providers is not iterable''), tr))))))"

text \<open>
  Projections of a history: the sleeps in order, the failure lines of the retry loop,
  and the providers on whose behalf requests were issued.
\<close>

fun sleptMs :: "event \<Rightarrow> nat list" where
  "sleptMs (Slept ms) = [ms]"
| "sleptMs e = []"

definition sleeps :: "event list \<Rightarrow> nat list" where
  "sleeps tr = concat (map sleptMs tr)"

fun isAttemptError :: "event \<Rightarrow> bool" where
  "isAttemptError (AttemptError n r m) = True"
| "isAttemptError e = False"

definition failures :: "event list \<Rightarrow> event list" where
  "failures tr = filter isAttemptError tr"

fun providerOf :: "event \<Rightarrow> string list" where
  "providerOf (Request (ViaProvider n) c) = [n]"
| "providerOf e = []"

definition requestedProviders :: "event list \<Rightarrow> string list" where
  "requestedProviders tr = concat (map providerOf tr)"

fun tokenLookupOf :: "event \<Rightarrow> string list" where
  "tokenLookupOf (Request (TokenLookup t) c) = [t]"
| "tokenLookupOf e = []"

definition tokenLookups :: "event list \<Rightarrow> string list" where
  "tokenLookups tr = concat (map tokenLookupOf tr)"

text \<open>What the token aggregation adds to a history: token requests and console lines.\<close>

fun isTokenEvent :: "event \<Rightarrow> bool" where
  "isTokenEvent (Request (TokenLookup t) c) = True"
| "isTokenEvent (ConsoleError m) = True"
| "isTokenEvent e = False"

text \<open>The response body of the specification's extraction example.\<close>

definition trongridBody :: jsonValue where
  "trongridBody = VObj [(''data'', VArr [VObj [(''balance'', VStr ''500'')]])]"

text \<open>Concrete worlds, all on the runtime above.\<close>

definition okResponse :: "jsonValue \<Rightarrow> response" where
  "okResponse body = \<lparr>ok = True, status = 200, statusText = ''OK'', bodyJson = Some body,
     bodyText = []\<rparr>"

definition errorResponse :: "nat \<Rightarrow> response" where
  "errorResponse st = \<lparr>ok = False, status = st, statusText = [], bodyJson = None,
     bodyText = []\<rparr>"

text \<open>Every request fails on the network.\<close>

definition deadWorld :: world where
  "deadWorld = \<lparr>fetch = (\<lambda>tr url. Inl (Error ''connect ETIMEDOUT'')),
     rpc = (\<lambda>tr c. Inl (Error ''connect ETIMEDOUT'')), js = nodeRuntime,
     display = (\<lambda>v. []), processEnv = Map.empty\<rparr>"

text \<open>Every HTTP request is answered with the given status and no body.\<close>

definition statusWorld :: "nat \<Rightarrow> world" where
  "statusWorld st = \<lparr>fetch = (\<lambda>tr url. Inr (errorResponse st)),
     rpc = (\<lambda>tr c. Inl (Error ''connect ETIMEDOUT'')), js = nodeRuntime,
     display = (\<lambda>v. []), processEnv = Map.empty\<rparr>"

text \<open>Every HTTP request is answered 200 with the given JSON body.\<close>

definition bodyWorld :: "jsonValue \<Rightarrow> world" where
  "bodyWorld body = \<lparr>fetch = (\<lambda>tr url. Inr (okResponse body)),
     rpc = (\<lambda>tr c. Inl (Error ''connect ETIMEDOUT'')), js = nodeRuntime,
     display = (\<lambda>v. []), processEnv = Map.empty\<rparr>"

text \<open>
  The network fails until the retry loop has logged two failures, and answers with the
  body of the extraction example from then on.
\<close>

definition flakyWorld :: world where
  "flakyWorld = \<lparr>fetch = (\<lambda>tr url. if length (failures tr) < 2 then Inl (Error ''socket hang up'')
                                  else Inr (okResponse trongridBody)),
     rpc = (\<lambda>tr c. Inl (Error ''connect ETIMEDOUT'')), js = nodeRuntime,
     display = (\<lambda>v. []), processEnv = Map.empty\<rparr>"

text \<open>The provider configured for tron.\<close>

definition trongrid :: provider where
  "trongrid = \<lparr>name = ''trongrid'', baseURL = ''https://api.trongrid.io/v1/accounts/{address}'',
     apiKey = None, responsePath = Some ''data[0].balance'', rpcMethod = None, isText = False\<rparr>"

text \<open>No attempt of the pipeline can succeed, whatever happened before it.\<close>

definition everyAttemptFails :: "world \<Rightarrow> string \<Rightarrow> string \<Rightarrow> bool" where
  "everyAttemptFails w currency address =
     (if currency = ''bitcoin'' then (\<forall>tr r. fst (bitcoinTry w address tr) \<noteq> Inr (Some r))
      else (\<forall>ps. providersOf w currency = Own ps \<longrightarrow>
              (\<forall>p\<in>set ps. \<forall>tr. isl (fst (attempt w currency address p (networks currency) tr)))))"

text \<open>The provider list \<open>apiProviders[currency]\<close>, empty when the table owns none.\<close>

definition configured :: "world \<Rightarrow> string \<Rightarrow> provider list" where
  "configured w currency =
     (case providersOf w currency of Own ps \<Rightarrow> ps | Inherited v \<Rightarrow> [])"

text \<open>
  The balances the token lookups of the loop report, in the order of the loop, whether
  positive or not.
\<close>

fun lookedUp :: "world \<Rightarrow> string \<Rightarrow> string \<Rightarrow> (string \<times> tokenInfo) list \<Rightarrow> event list
     \<Rightarrow> (error + (string \<times> int) list) \<times> event list" where
  "lookedUp w currency address [] tr = (Inr [], tr)"
| "lookedUp w currency address ((token, info) # rest) tr =
     (case tokenBalanceOf w currency address token info tr of
        (Inl e, tr') \<Rightarrow> (Inl e, tr')
      | (Inr b, tr') \<Rightarrow>
          (case lookedUp w currency address rest tr' of
             (Inl e, tr'') \<Rightarrow> (Inl e, tr'')
           | (Inr bs, tr'') \<Rightarrow> (Inr ((token, b) # bs), tr'')))"

text \<open>\<open>result.tokens[token]\<close>, absent when the result has no \<open>tokens\<close> member.\<close>

definition tokenOf :: "balanceResult \<Rightarrow> string \<Rightarrow> int option" where
  "tokenOf r t = (case resultTokens r of None \<Rightarrow> None | Some tb \<Rightarrow> map_of tb t)"


text \<open>
  A body that satisfies the etherscan check with a native balance of 0 and, read as the
  answer of the USDT aggregator, reports 5 USDT.
\<close>

definition zeroEthFiveUsdt :: jsonValue where
  "zeroEthFiveUsdt = VObj [(''status'', VStr ''1''), (''result'', VStr ''0''), (''balance'', VNum 5)]"

text \<open>
  A body that the REST providers of ethereum and tron read as a native balance of 0 and
  the USDT aggregator as an amount of 9007199254.740993 USDT, which \<open>JSON.parse\<close>
  reads as the nearest double, 2361183241434823 / 2^18.
\<close>

definition largeUsdt :: jsonValue where
  "largeUsdt = VObj [(''status'', VStr ''1''), (''result'', VStr ''0''),
     (''data'', VArr [VObj [(''balance'', VStr ''0'')]]),
     (''balance'', VNum (2361183241434823 / 262144))]"

text \<open>
  The answer of the bitcoin aggregator for 90071992.54740993 BTC, read as the nearest
  double, 6044629098073147 / 2^26.
\<close>

definition largeBtc :: jsonValue where
  "largeBtc = VObj [(''balance'', VNum (6044629098073147 / 67108864))]"

text \<open>A tron account whose balance field is no number.\<close>

definition malformedBody :: jsonValue where
  "malformedBody = VObj [(''data'', VArr [VObj [(''balance'', VStr ''12abc'')]])]"

text \<open>Every HTTP request is answered 200 with a body that is not JSON.\<close>

definition garbledWorld :: world where
  "garbledWorld = \<lparr>fetch = (\<lambda>tr url. Inr \<lparr>ok = True, status = 200, statusText = ''OK'',
                                           bodyJson = None, bodyText = ''<html>''\<rparr>),
     rpc = (\<lambda>tr c. Inl (Error ''connect ETIMEDOUT'')), js = nodeRuntime,
     display = (\<lambda>v. []), processEnv = Map.empty\<rparr>"

section \<open>Rotation: one selection\<close>

lemma rotationLoop_first:
  assumes "attempts < length ps"
    and "cooldownUntil r c (ps ! ((i + 1) mod length ps)) \<le> now"
  shows "rotationLoop r c now ps i attempts =
           (Some (ps ! ((i + 1) mod length ps)),
            r\<lparr>lastUsedIndex := (lastUsedIndex r)(c \<mapsto> (i + 1) mod length ps)\<rparr>)"
  using assms by (subst rotationLoop.simps) simp

lemma getNextProvider_none_cooling:
  assumes ps: "providers r c = Some ps" "ps \<noteq> []"
    and free: "\<forall>p\<in>set ps. cooldownUntil r c p \<le> now"
  shows "getNextProvider r now c =
           (Some (ps ! ((lastIndex r c + 1) mod length ps)),
            r\<lparr>lastUsedIndex := (lastUsedIndex r)(c \<mapsto> (lastIndex r c + 1) mod length ps)\<rparr>)"
proof -
  have "(lastIndex r c + 1) mod length ps < length ps" using ps by simp
  then have "cooldownUntil r c (ps ! ((lastIndex r c + 1) mod length ps)) \<le> now"
    using free nth_mem by blast
  moreover have "0 < length ps" using ps by simp
  ultimately show ?thesis
    using ps by (simp add: getNextProvider_def rotationLoop_first)
qed

lemma cooldownUntil_lastUsedIndex [simp]:
  "cooldownUntil (r\<lparr>lastUsedIndex := m\<rparr>) c p = cooldownUntil r c p"
  by (simp add: cooldownUntil_def)

lemma lastIndex_update [simp]:
  "lastIndex (r\<lparr>lastUsedIndex := (lastUsedIndex r)(c \<mapsto> k)\<rparr>) c = k"
  by (simp add: lastIndex_def)

lemma getNextProviders_none_cooling:
  assumes "providers r c = Some ps" "ps \<noteq> []"
    and "\<forall>t\<in>set ts. \<forall>p\<in>set ps. cooldownUntil r c p \<le> t"
  shows "getNextProviders r c ts =
           map (\<lambda>k. Some (ps ! ((lastIndex r c + 1 + k) mod length ps))) [0..<length ts]"
  using assms
proof (induction ts arbitrary: r)
  case Nil
  then show ?case by simp
next
  case (Cons t ts)
  let ?n = "length ps"
  let ?i = "(lastIndex r c + 1) mod ?n"
  let ?r' = "r\<lparr>lastUsedIndex := (lastUsedIndex r)(c \<mapsto> ?i)\<rparr>"
  have step: "getNextProvider r t c = (Some (ps ! ?i), ?r')"
    using Cons.prems by (intro getNextProvider_none_cooling) auto
  have ih: "getNextProviders ?r' c ts =
              map (\<lambda>k. Some (ps ! ((lastIndex ?r' c + 1 + k) mod ?n))) [0..<length ts]"
    using Cons.prems by (intro Cons.IH) auto
  have shift: "(?i + 1 + k) mod ?n = (lastIndex r c + 1 + Suc k) mod ?n" for k
    by (metis (no_types, opaque_lifting) add.assoc add.commute mod_add_right_eq plus_1_eq_Suc)
  have "[0..<length (t # ts)] = 0 # map Suc [0..<length ts]"
    by (simp add: upt_conv_Cons map_Suc_upt del: upt_Suc)
  then show ?case
    using step ih shift by (simp add: comp_def del: upt_Suc)
qed

lemma rotate_as_map:
  "map (\<lambda>k. xs ! ((a + k) mod length xs)) [0..<length xs] = rotate a xs"
  by (rule nth_equalityI) (simp_all add: nth_rotate add.commute)

lemma mset_rotate_eq: "mset (rotate n xs) = mset xs"
proof -
  have "mset (take k xs) + mset (drop k xs) = mset xs" for k
    by (metis append_take_drop_id mset_append)
  then show ?thesis
    by (simp add: rotate_drop_take add.commute)
qed

text \<open>
  C6. With N providers registered for a currency and none of them cooling down at any of
  the N clock readings, N consecutive calls of \<open>getNextProvider\<close> return the registered
  list rotated to start just after the last index used: every provider once, in
  round-robin order.
\<close>

theorem rotation_fairness:
  assumes "providers r currency = Some ps" and "ps \<noteq> []"
    and "length clocks = length ps"
    and "\<forall>t\<in>set clocks. \<forall>p\<in>set ps. cooldownUntil r currency p \<le> t"
  shows "getNextProviders r currency clocks = map Some (rotate (lastIndex r currency + 1) ps)
       \<and> mset (getNextProviders r currency clocks) = mset (map Some ps)"
proof -
  have "getNextProviders r currency clocks =
          map (\<lambda>k. Some (ps ! ((lastIndex r currency + 1 + k) mod length ps))) [0..<length ps]"
    using getNextProviders_none_cooling [OF assms(1,2,4)] assms(3) by simp
  also have "\<dots> = map Some (map (\<lambda>k. ps ! ((lastIndex r currency + 1 + k) mod length ps))
                          [0..<length ps])"
    by simp
  also have "\<dots> = map Some (rotate (lastIndex r currency + 1) ps)"
    by (simp only: rotate_as_map)
  finally have eq: "getNextProviders r currency clocks =
                      map Some (rotate (lastIndex r currency + 1) ps)" .
  have "mset (map Some (rotate (lastIndex r currency + 1) ps)) = mset (map Some ps)"
    by (simp only: mset_map mset_rotate_eq)
  with eq show ?thesis by simp
qed

theorem rotation_fairness_witness:
  "getNextProviders
       (registerProviders emptyRegistry ''tron'' [named ''p1'', named ''p2'', named ''p3''])
       ''tron'' [10, 20, 30]
     = [Some (named ''p2''), Some (named ''p3''), Some (named ''p1'')]"
  using rotation_fairness
          [of "registerProviders emptyRegistry ''tron'' [named ''p1'', named ''p2'', named ''p3'']"
              "''tron''" "[named ''p1'', named ''p2'', named ''p3'']" "[10, 20, 30]"]
  by (simp add: registerProviders_def emptyRegistry_def cooldownUntil_def lastIndex_def)

section \<open>Rotation: cooldown\<close>

lemma rotationLoop_result:
  "rotationLoop r c now ps i a = (Some q, r') \<Longrightarrow> ps \<noteq> [] \<Longrightarrow>
     cooldownUntil r c q \<le> now \<and> q \<in> set ps"
proof (induction r c now ps i a rule: rotationLoop.induct)
  case (1 r c now ps i a)
  show ?case
  proof (cases "a < length ps")
    case False
    with "1.prems" show ?thesis by (subst (asm) rotationLoop.simps) simp
  next
    case True
    show ?thesis
    proof (cases "cooldownUntil r c (ps ! ((i + 1) mod length ps)) \<le> now")
      case True
      with \<open>a < length ps\<close> "1.prems" show ?thesis
        by (subst (asm) rotationLoop.simps) auto
    next
      case False
      with \<open>a < length ps\<close> "1.prems"
      have "rotationLoop r c now ps ((i + 1) mod length ps) (a + 1) = (Some q, r')"
        by (subst (asm) rotationLoop.simps) simp
      with "1.IH" \<open>a < length ps\<close> False "1.prems" show ?thesis by simp
    qed
  qed
qed

lemma rotationLoop_cooldowns:
  "cooldowns (snd (rotationLoop r c now ps i a)) = cooldowns r"
proof (induction r c now ps i a rule: rotationLoop.induct)
  case (1 r c now ps i a)
  then show ?case by (subst rotationLoop.simps) simp
qed

lemma getNextProvider_cooldowns: "cooldowns (snd (getNextProvider r now c)) = cooldowns r"
  by (simp add: getNextProvider_def Let_def rotationLoop_cooldowns)

lemma afterCalls_cooldowns: "cooldowns (afterCalls r cs) = cooldowns r"
  by (induction r cs rule: afterCalls.induct) (simp_all add: getNextProvider_cooldowns)

lemma getNextProvider_result:
  "getNextProvider r now c = (Some q, r') \<Longrightarrow> cooldownUntil r c q \<le> now"
  by (auto simp: getNextProvider_def Let_def split: if_splits dest: rotationLoop_result)

text \<open>
  C7. After \<open>setCooldown(currency, p, duration)\<close> at time \<open>t\<close>, and after any further
  selections, a call of \<open>getNextProvider(currency)\<close> at a time before \<open>t + duration\<close>
  that returns a provider returns one whose name is not \<open>p\<close>.
\<close>

theorem cooldown_respected:
  assumes "fst (getNextProvider (afterCalls (setCooldown r t currency p duration) calls)
                  now currency) = Some q"
    and "now < t + duration"
  shows "name q \<noteq> p"
proof
  assume "name q = p"
  have "cooldowns (afterCalls (setCooldown r t currency p duration) calls)
          = cooldowns (setCooldown r t currency p duration)"
    by (rule afterCalls_cooldowns)
  then have "cooldownUntil (afterCalls (setCooldown r t currency p duration) calls) currency q
               = t + duration"
    using \<open>name q = p\<close> by (simp add: cooldownUntil_def setCooldown_def)
  moreover have "cooldownUntil (afterCalls (setCooldown r t currency p duration) calls)
                   currency q \<le> now"
    using assms(1) by (intro getNextProvider_result [of _ _ _ _ "snd (getNextProvider
      (afterCalls (setCooldown r t currency p duration) calls) now currency)"])
      (simp add: prod_eq_iff)
  ultimately show False using assms(2) by simp
qed

theorem cooldown_respected_witness:
  "fst (getNextProvider
          (afterCalls
             (setCooldown (registerProviders emptyRegistry ''tron'' [named ''p1'', named ''p2''])
                0 ''tron'' ''p1'' 60000)
             [(500, ''tron'')])
          59999 ''tron'') = Some (named ''p2'')
   \<and> name (named ''p2'') \<noteq> ''p1''"
proof -
  have sel: "fst (getNextProvider
          (afterCalls
             (setCooldown (registerProviders emptyRegistry ''tron'' [named ''p1'', named ''p2''])
                0 ''tron'' ''p1'' 60000)
             [(500, ''tron'')])
          59999 ''tron'') = Some (named ''p2'')"
    by (simp add: getNextProvider_def rotationLoop.simps registerProviders_def emptyRegistry_def
          setCooldown_def cooldownUntil_def cooldownKey_def lastIndex_def named_def)
  have "(59999::int) < 0 + 60000" by simp
  from cooldown_respected [OF sel this] sel show ?thesis by simp
qed

section \<open>Exchange rate refresh\<close>

lemmas node_defs = inherited_def nodeRuntime_def objectPrototype_def

lemma totalFailure_fallback:
  "totalFailure rt reply \<Longrightarrow> updateAllExchangeRates rt reply cache = hardcodedFallback cache"
  by (auto simp: totalFailure_def updateAllExchangeRates_def tryUpdate_def json_def
           split: sum.splits option.splits)

lemma updateFromData_unchanged:
  "updateFromData rt data keys cache = Inr cache' \<Longrightarrow>
   \<forall>symbol\<in>set keys. currencyOfSymbol symbol \<noteq> Some c \<Longrightarrow> cache' c = cache c"
proof (induction keys arbitrary: cache)
  case Nil
  then show ?case by simp
next
  case (Cons symbol rest)
  then show ?case
    by (auto split: option.splits sum.splits if_splits)
qed

lemma map_of_ofJson:
  "map_of (map (map_prod id ofJson) kvs) k = map_option ofJson (map_of kvs k)"
  by (induction kvs) auto

lemma plain_ofJson: "plain (ofJson d)"
  by (induction d) (auto simp: list_all_iff)

lemma plain_member: "plain (JObj kvs) \<Longrightarrow> map_of kvs k = Some x \<Longrightarrow> plain x"
  by (auto simp: list_all_iff dest!: map_of_SomeD)

lemma getProp_plain_returns: "plain v \<Longrightarrow> truthy v \<Longrightarrow> \<exists>w. getProp rt v k = Inr w"
  by (cases v) (auto split: option.splits)

lemma showNat_last: "of_char (last (showNat n)) = (48 + n mod 10 :: nat)"
  by (subst showNat.simps) auto

lemma showNat_no_symbol: "currencyOfSymbol (showNat n) = None"
proof -
  have "n mod 10 < 10" by simp
  then have "showNat n \<notin> {''BTC'', ''ETH'', ''SOL'', ''TON'', ''USDT''}"
    using showNat_last [of n] by auto
  then show ?thesis
    by (auto simp: currencyOfSymbol_def mobulaSymbols_def)
qed

lemma enumerated_members:
  assumes "plain data" and "s \<in> set (enumerableKeys data)" and "currencyOfSymbol s \<noteq> None"
  shows "\<exists>x. getProp rt data s = Inr x \<and> plain x"
proof (cases data)
  case (JObj kvs)
  with assms(2) obtain x where x: "map_of kvs s = Some x"
    by (cases "map_of kvs s") (auto simp: map_of_eq_None_iff)
  then have "plain x" using assms(1) JObj plain_member by blast
  with x JObj show ?thesis by simp
qed (use assms showNat_no_symbol in auto)

lemma updateFromData_returns:
  "\<forall>s\<in>set keys. currencyOfSymbol s \<noteq> None \<longrightarrow> (\<exists>x. getProp rt data s = Inr x \<and> plain x) \<Longrightarrow>
     \<exists>cache'. updateFromData rt data keys cache = Inr cache'"
proof (induction keys arbitrary: cache)
  case Nil
  then show ?case by simp
next
  case (Cons symbol rest)
  then have ih: "\<exists>cache'. updateFromData rt data rest c = Inr cache'" for c by simp
  show ?case
  proof (cases "currencyOfSymbol symbol")
    case None
    with ih show ?thesis by simp
  next
    case (Some currency)
    with Cons.prems obtain entry where e: "getProp rt data symbol = Inr entry" "plain entry"
      by auto
    show ?thesis
    proof (cases "truthy entry")
      case True
      with e obtain usd where "getProp rt entry ''USD'' = Inr usd"
        using getProp_plain_returns by blast
      with e True Some ih show ?thesis by simp
    next
      case False
      with e Some ih show ?thesis by simp
    qed
  qed
qed

lemma refreshSucceeds_unchanged:
  assumes "refreshSucceeds rt reply"
    and "\<forall>symbol\<in>symbolsPresent reply. currencyOfSymbol symbol \<noteq> Some c"
  shows "updateAllExchangeRates rt reply cache c = cache c"
proof -
  from assms(1) obtain resp data r where r: "reply = Inr resp" "ok resp" "bodyJson resp = Some data"
      "getProp rt (ofJson data) ''Response'' = Inr r" "r \<noteq> JStr ''Error''"
    by (cases reply; cases "bodyJson (projr reply)";
        cases "getProp rt (ofJson (the (bodyJson (projr reply)))) ''Response''")
       (auto simp: refreshSucceeds_def)
  have "\<forall>s\<in>set (enumerableKeys (ofJson data)). currencyOfSymbol s \<noteq> None \<longrightarrow>
          (\<exists>x. getProp rt (ofJson data) s = Inr x \<and> plain x)"
    using enumerated_members [OF plain_ofJson] by blast
  then obtain cache' where
    u: "updateFromData rt (ofJson data) (enumerableKeys (ofJson data)) cache = Inr cache'"
    using updateFromData_returns by blast
  have "updateAllExchangeRates rt reply cache = cache'"
    using r u by (simp add: updateAllExchangeRates_def tryUpdate_def json_def)
  moreover have "cache' c = cache c"
    using updateFromData_unchanged [OF u] assms(2) r by (simp add: symbolsPresent_def)
  ultimately show ?thesis by simp
qed

text \<open>
  C9. After a refresh that fails totally (the fetch throws, the response is not ok, or
  the body carries the error indicator) the rate of every tracked currency is its
  hardcoded fallback, \<open>getExchangeRate rt(bitcoin)\<close> being 60000 whatever the cache held
  before. After a successful refresh the entry of a currency whose symbol is not in the
  response is the one the cache held before.
\<close>

theorem refresh_fallback:
  "(totalFailure rt reply \<longrightarrow>
      getExchangeRate rt (updateAllExchangeRates rt reply cache) ''bitcoin'' = JNum 60000
    \<and> getExchangeRate rt (updateAllExchangeRates rt reply cache) ''ethereum'' = JNum 3000
    \<and> getExchangeRate rt (updateAllExchangeRates rt reply cache) ''solana'' = JNum 150
    \<and> getExchangeRate rt (updateAllExchangeRates rt reply cache) ''ton'' = JNum 6
    \<and> getExchangeRate rt (updateAllExchangeRates rt reply cache) ''usdt'' = JNum 1)
 \<and> (refreshSucceeds rt reply \<longrightarrow>
      (\<forall>currency. (\<forall>symbol\<in>symbolsPresent reply. currencyOfSymbol symbol \<noteq> Some currency) \<longrightarrow>
         updateAllExchangeRates rt reply cache currency = cache currency))"
proof (intro conjI impI allI)
  assume "totalFailure rt reply"
  then have eq: "updateAllExchangeRates rt reply cache = hardcodedFallback cache"
    by (rule totalFailure_fallback)
  show "getExchangeRate rt (updateAllExchangeRates rt reply cache) ''bitcoin'' = JNum 60000"
    by (simp add: eq getExchangeRate_def hardcodedFallback_def)
  show "getExchangeRate rt (updateAllExchangeRates rt reply cache) ''ethereum'' = JNum 3000"
    by (simp add: eq getExchangeRate_def hardcodedFallback_def)
  show "getExchangeRate rt (updateAllExchangeRates rt reply cache) ''solana'' = JNum 150"
    by (simp add: eq getExchangeRate_def hardcodedFallback_def)
  show "getExchangeRate rt (updateAllExchangeRates rt reply cache) ''ton'' = JNum 6"
    by (simp add: eq getExchangeRate_def hardcodedFallback_def)
  show "getExchangeRate rt (updateAllExchangeRates rt reply cache) ''usdt'' = JNum 1"
    by (simp add: eq getExchangeRate_def hardcodedFallback_def)
next
  fix currency
  assume "refreshSucceeds rt reply"
    and "\<forall>symbol\<in>symbolsPresent reply. currencyOfSymbol symbol \<noteq> Some currency"
  then show "updateAllExchangeRates rt reply cache currency = cache currency"
    by (rule refreshSucceeds_unchanged)
qed

theorem refresh_fallback_witness:
  "getExchangeRate nodeRuntime (updateAllExchangeRates nodeRuntime feedDown staleCache) ''bitcoin'' = JNum 60000
 \<and> updateAllExchangeRates nodeRuntime feedBtcOnly staleCache ''ethereum'' = Some (JNum 2500)
 \<and> updateAllExchangeRates nodeRuntime feedBtcOnly staleCache ''bitcoin'' = Some (JNum 65000)"
proof -
  have f: "totalFailure nodeRuntime feedDown" by (simp add: totalFailure_def feedDown_def)
  have s: "refreshSucceeds nodeRuntime feedBtcOnly" by (simp add: refreshSucceeds_def feedBtcOnly_def node_defs)
  have p: "\<forall>symbol\<in>symbolsPresent feedBtcOnly. currencyOfSymbol symbol \<noteq> Some ''ethereum''"
    by (simp add: symbolsPresent_def feedBtcOnly_def currencyOfSymbol_def mobulaSymbols_def)
  have b: "updateAllExchangeRates nodeRuntime feedBtcOnly staleCache ''bitcoin'' = Some (JNum 65000)"
    by (simp add: updateAllExchangeRates_def tryUpdate_def json_def feedBtcOnly_def
          currencyOfSymbol_def mobulaSymbols_def staleCache_def node_defs)
  from refresh_fallback [of nodeRuntime feedDown staleCache] f
       refresh_fallback [of nodeRuntime feedBtcOnly staleCache] s p b
  show ?thesis by (simp add: staleCache_def)
qed

section \<open>Address derivation\<close>

text \<open>
  C10. \<open>deriveAddress\<close> returns an address only for bitcoin, solana, ton and tron, where
  it is what the chain library returns; for every other currency, ethereum among them
  although it is scanned and configured, it throws the unsupported-currency error, and
  the scan takes the ethereum address from the wallet library instead.
\<close>

theorem deriveAddress_supported:
  "(deriveAddress libs currency km = Inr a \<longrightarrow>
      currency \<in> {''bitcoin'', ''solana'', ''ton'', ''tron''})
 \<and> (currency \<notin> {''bitcoin'', ''solana'', ''ton'', ''tron''} \<longrightarrow>
      deriveAddress libs currency km
        = Inl (Error (''Unsupported currency for derivation: '' @ currency)))
 \<and> deriveAddress libs ''bitcoin'' km = bitcoinP2pkh libs km (derivationPath (the (networks ''bitcoin'')))
 \<and> deriveAddress libs ''solana'' km = solanaKeypair libs km
 \<and> deriveAddress libs ''ton'' km = tonWallet libs km
 \<and> deriveAddress libs ''tron'' km = tronFromPrivateKey libs km (derivationPath (the (networks ''tron'')))
 \<and> deriveAddress libs ''ethereum'' km
        = Inl (Error ''Unsupported currency for derivation: ethereum'')
 \<and> ''ethereum'' \<in> set currenciesToCheck \<and> networks ''ethereum'' \<noteq> None
 \<and> scanAddress libs ''ethereum'' km = ethersWalletFromPhrase libs km"
  by (simp add: deriveAddress_def scanAddress_def currenciesToCheck_def networks_def
        networkPath_def)

theorem deriveAddress_supported_witness:
  "deriveAddress stubLibs ''tron'' () = Inr ''trx-address''
 \<and> ''tron'' \<in> {''bitcoin'', ''solana'', ''ton'', ''tron''}
 \<and> ''dogecoin'' \<notin> {''bitcoin'', ''solana'', ''ton'', ''tron''}
 \<and> deriveAddress stubLibs ''dogecoin'' ()
      = Inl (Error ''Unsupported currency for derivation: dogecoin'')"
  using deriveAddress_supported [of stubLibs "''tron''" "()" "''trx-address''"]
        deriveAddress_supported [of stubLibs "''dogecoin''" "()" "''x''"]
  by (simp add: stubLibs_def)

section \<open>Response extractor: paths and values\<close>

lemma splitDot_nonempty: "splitDot s \<noteq> []"
  by (induction s) (auto split: list.splits)

lemma splitDot_single: "CHR ''.'' \<notin> set a \<Longrightarrow> splitDot a = [a]"
  by (induction a) (auto split: list.splits)

lemma splitDot_append:
  "CHR ''.'' \<notin> set a \<Longrightarrow> splitDot (a @ CHR ''.'' # rest) = a # splitDot rest"
  by (induction a) (auto split: list.splits)

lemma dot_not_word: "\<not> isWordChar (CHR ''.'')"
  by (simp add: isWordChar_def isDigit_def)

lemma bracket_not_word: "\<not> isWordChar (CHR ''['')"
  by (simp add: isWordChar_def isDigit_def)

lemma dot_not_digit: "\<not> isDigit (CHR ''.'')"
  by (simp add: isDigit_def)

lemma close_not_digit: "\<not> isDigit (CHR '']'')"
  by (simp add: isDigit_def)

lemma wellFormed_no_dot: "wellFormed s \<Longrightarrow> CHR ''.'' \<notin> set (renderSegment s)"
  by (cases s) (auto simp: list_all_iff dot_not_word dot_not_digit)

lemma splitDot_renderPath:
  "list_all wellFormed segs \<Longrightarrow> segs \<noteq> [] \<Longrightarrow>
     splitDot (renderPath segs) = map renderSegment segs"
proof (induction segs rule: renderPath.induct)
  case 1
  then show ?case by simp
next
  case (2 s)
  then show ?case by (simp add: splitDot_single wellFormed_no_dot)
next
  case (3 s t rest)
  then show ?case
    using splitDot_append [of "renderSegment s" "renderPath (t # rest)"]
    by (simp add: wellFormed_no_dot)
qed

lemma matchAt_no_bracket: "CHR ''['' \<notin> set s \<Longrightarrow> matchAt s = None"
proof -
  assume nb: "CHR ''['' \<notin> set s"
  have "set (dropWhile isWordChar s) \<subseteq> set s"
    by (auto dest: set_dropWhileD)
  with nb have "CHR ''['' \<notin> set (dropWhile isWordChar s)" by blast
  then show ?thesis
    by (auto simp: matchAt_def Let_def split: list.splits)
qed

lemma matchIndexed_no_bracket: "CHR ''['' \<notin> set s \<Longrightarrow> matchIndexed s = None"
proof (induction s)
  case Nil
  then show ?case by simp
next
  case (Cons c cs)
  have "matchAt (c # cs) = None" using Cons.prems by (rule matchAt_no_bracket)
  moreover have "matchIndexed cs = None" using Cons by simp
  ultimately show ?case by simp
qed

lemma matchAt_indexed:
  assumes "k \<noteq> []" "list_all isWordChar k" "d \<noteq> []" "list_all isDigit d"
  shows "matchAt (k @ ''['' @ d @ '']'' @ t) = Some (k, d)"
proof -
  have w: "takeWhile isWordChar (k @ ''['' @ d @ '']'' @ t) = k"
    using assms(2) by (simp add: takeWhile_append2 list_all_iff bracket_not_word)
  have r: "dropWhile isWordChar (k @ ''['' @ d @ '']'' @ t) = ''['' @ d @ '']'' @ t"
    using assms(2) by (simp add: dropWhile_append2 list_all_iff bracket_not_word)
  have dd: "takeWhile isDigit (d @ '']'' @ t) = d"
    using assms(4) by (simp add: takeWhile_append2 list_all_iff close_not_digit)
  have dr: "dropWhile isDigit (d @ '']'' @ t) = '']'' @ t"
    using assms(4) by (simp add: dropWhile_append2 list_all_iff close_not_digit)
  show ?thesis
    using assms(1,3) w r dd dr by (simp add: matchAt_def Let_def)
qed

lemma matchIndexed_indexed:
  assumes "k \<noteq> []" "list_all isWordChar k" "d \<noteq> []" "list_all isDigit d"
  shows "matchIndexed (k @ ''['' @ d @ '']'') = Some (k, d)"
proof -
  obtain c cs where k: "k = c # cs" using assms(1) by (cases k) auto
  have "matchAt (k @ ''['' @ d @ '']'' @ []) = Some (k, d)"
    using assms by (rule matchAt_indexed)
  then show ?thesis using k by simp
qed

lemma reduceStep_Key:
  "wellFormed (Key k) \<Longrightarrow>
     reduceStep rt obj k = (if \<not> truthy obj then Inr obj else getProp rt obj k)"
  by (simp add: reduceStep_def matchIndexed_no_bracket)

lemma reduceStep_KeyIndex:
  "wellFormed (KeyIndex k d) \<Longrightarrow>
     reduceStep rt obj (renderSegment (KeyIndex k d)) =
       (if \<not> truthy obj then Inr JUndefined
        else (case getProp rt obj k of
                Inl e \<Rightarrow> Inl e
              | Inr v \<Rightarrow> if truthy v then getIndex rt v (decimalValue d) else Inr JUndefined))"
  using matchIndexed_indexed [of k d] by (simp add: reduceStep_def)

lemma reduce_undefined: "reduce (reduceStep rt) JUndefined xs = Inr JUndefined"
  by (induction xs) (auto simp: reduceStep_def split: option.splits)

text \<open>The only errors of a property access on a truthy value are those of a builtin.\<close>

lemma getProp_error:
  "getProp rt v k = Inl e \<Longrightarrow> truthy v \<Longrightarrow> \<exists>b k'. builtinProp rt b k' = Inl e"
  by (cases v) (auto split: option.splits if_splits)

lemma getIndex_error:
  "getIndex rt v n = Inl e \<Longrightarrow> truthy v \<Longrightarrow> \<exists>b k'. builtinProp rt b k' = Inl e"
  by (cases v) (auto split: option.splits if_splits)

lemma reduceStep_error:
  assumes "reduceStep rt obj i = Inl e"
  shows "\<exists>b k. builtinProp rt b k = Inl e"
proof (cases "matchIndexed i")
  case None
  with assms show ?thesis
    using getProp_error [of rt obj i e] by (auto simp: reduceStep_def split: if_splits)
next
  case (Some m)
  obtain m1 m2 where m: "m = (m1, m2)" by (cases m)
  show ?thesis
  proof (cases "getProp rt obj m1")
    case (Inl e')
    with assms Some m show ?thesis
      using getProp_error [of rt obj m1 e] by (auto simp: reduceStep_def split: if_splits)
  next
    case (Inr x)
    with assms Some m show ?thesis
      using getIndex_error [of rt x "decimalValue m2" e]
      by (auto simp: reduceStep_def split: if_splits)
  qed
qed

lemma reduce_error:
  "reduce (reduceStep rt) obj xs = Inl e \<Longrightarrow> \<exists>b k. builtinProp rt b k = Inl e"
proof (induction xs arbitrary: obj)
  case Nil
  then show ?case by simp
next
  case (Cons x xs)
  then show ?case
    using reduceStep_error [of rt obj x e] by (cases "reduceStep rt obj x") auto
qed

text \<open>A path that reads no inherited name stays inside the value it started from.\<close>

lemma holders_all: "h \<in> set holders"
  by (cases h) (simp_all add: holders_def)

lemma getProp_plain:
  assumes "plain v" and "truthy v" and "\<And>h. inheritedBy rt h k = None"
  shows "\<exists>w. getProp rt v k = Inr w \<and> plain w"
proof (cases v)
  case (JObj kvs)
  show ?thesis
  proof (cases "map_of kvs k")
    case None
    with JObj assms(3) show ?thesis by (simp add: inherited_def)
  next
    case (Some x)
    then have "plain x" using assms(1) JObj plain_member by blast
    with Some JObj show ?thesis by simp
  qed
next
  case (JArr xs)
  with assms show ?thesis
    by (auto simp: inherited_def list_all_length split: option.splits)
qed (use assms in \<open>auto simp: inherited_def split: option.splits\<close>)

lemma getIndex_plain:
  assumes "plain v" and "truthy v" and "\<And>h. inheritedBy rt h (showNat n) = None"
  shows "\<exists>w. getIndex rt v n = Inr w \<and> plain w"
proof (cases v)
  case (JArr xs)
  with assms(1) show ?thesis by (auto simp: list_all_length)
next
  case (JStr s)
  then show ?thesis by simp
qed (use getProp_plain [OF assms] in auto)

lemma reduceStep_plain:
  assumes "plain obj"
    and "list_all (\<lambda>k. list_all (\<lambda>h. inheritedBy rt h k = None) holders) (pieceNames i)"
  shows "\<exists>w. reduceStep rt obj i = Inr w \<and> plain w"
proof (cases "matchIndexed i")
  case None
  with assms(2) have "\<And>h. inheritedBy rt h i = None"
    using holders_all by (auto simp: pieceNames_def list_all_iff)
  with None assms(1) show ?thesis
    using getProp_plain [of obj rt i] by (auto simp: reduceStep_def)
next
  case (Some m)
  obtain m1 m2 where m: "m = (m1, m2)" by (cases m)
  with Some assms(2) have n1: "\<And>h. inheritedBy rt h m1 = None"
    and n2: "\<And>h. inheritedBy rt h (showNat (decimalValue m2)) = None"
    using holders_all by (auto simp: pieceNames_def list_all_iff)
  show ?thesis
  proof (cases "truthy obj")
    case False
    with Some m show ?thesis by (simp add: reduceStep_def)
  next
    case True
    then obtain x where x: "getProp rt obj m1 = Inr x" "plain x"
      using getProp_plain [OF assms(1) _ n1] by blast
    show ?thesis
    proof (cases "truthy x")
      case False
      with Some m True x show ?thesis by (simp add: reduceStep_def)
    next
      case tx: True
      obtain w where "getIndex rt x (decimalValue m2) = Inr w" "plain w"
        using getIndex_plain [OF x(2) tx n2] by blast
      with Some m True x tx show ?thesis by (simp add: reduceStep_def)
    qed
  qed
qed

lemma reduce_plain:
  "plain obj \<Longrightarrow>
   list_all (\<lambda>i. list_all (\<lambda>k. list_all (\<lambda>h. inheritedBy rt h k = None) holders) (pieceNames i)) xs \<Longrightarrow>
     \<exists>w. reduce (reduceStep rt) obj xs = Inr w"
proof (induction xs arbitrary: obj)
  case Nil
  then show ?case by simp
next
  case (Cons x xs)
  then obtain w where "reduceStep rt obj x = Inr w" "plain w"
    using reduceStep_plain [of obj rt x] by auto
  with Cons show ?case by simp
qed

lemma reduce_address:
  "list_all wellFormed segs \<Longrightarrow>
     (addressed v segs = Found w \<longrightarrow> reduce (reduceStep rt) v (map renderSegment segs) = Inr w)
   \<and> (addressed v segs = Missing \<longrightarrow>
        list_all (\<lambda>s. inheritedBy rt OfObject (segmentName s) = None) segs \<longrightarrow>
        reduce (reduceStep rt) v (map renderSegment segs) = Inr JUndefined)"
proof (induction v segs rule: addressed.induct)
  case (1 v)
  then show ?case by simp
next
  case (2 kvs k rest)
  have wf: "wellFormed (Key k)" using 2 by simp
  have step: "reduceStep rt (JObj kvs) k = getProp rt (JObj kvs) k"
    using reduceStep_Key [OF wf, of rt "JObj kvs"] by simp
  show ?case
  proof (cases "map_of kvs k")
    case None
    then show ?thesis by (simp add: step reduce_undefined inherited_def)
  next
    case (Some a)
    with 2 show ?thesis by (simp add: step)
  qed
next
  case (3 kvs k d rest)
  have wf: "wellFormed (KeyIndex k d)" using 3 by simp
  show ?case
  proof (cases "map_of kvs k")
    case None
    then show ?thesis
      by (simp add: reduceStep_KeyIndex [OF wf] reduce_undefined inherited_def
               del: renderSegment.simps)
  next
    case (Some a)
    show ?thesis
    proof (cases a)
      case (JArr xs)
      with Some 3 show ?thesis
        by (auto simp: reduceStep_KeyIndex [OF wf] reduce_undefined simp del: renderSegment.simps)
    qed (use Some in \<open>simp_all\<close>)
  qed
qed simp_all

lemma rawBalance_missing:
  "getNestedValue rt v path = Inr JUndefined \<Longrightarrow> rawBalance rt v (Some path) = Inr 0"
  by (simp add: rawBalance_def nestedValueAt_def)

text \<open>
  C5 (as amended). For a path of well-formed segments \<open>getNestedValue\<close> returns the
  addressed value when every segment resolves. When a name is missing from an object or
  an index is past the end of an array, and no name of the path is the name of a member
  that objects inherit, it returns \<open>undefined\<close>, and the pipeline takes the native
  balance to be 0. For a value read from JSON and any path that reads no inherited name
  it does not throw; and whatever the value and the path, the only error it can throw is
  one thrown by the getter of a builtin of the runtime.
\<close>

theorem getNestedValue_extraction:
  assumes "list_all wellFormed segs" and "segs \<noteq> []"
  shows "(\<forall>w. addressed v segs = Found w \<longrightarrow> getNestedValue rt v (renderPath segs) = Inr w)
       \<and> (addressed v segs = Missing
            \<and> list_all (\<lambda>s. inheritedBy rt OfObject (segmentName s) = None) segs \<longrightarrow>
            getNestedValue rt v (renderPath segs) = Inr JUndefined
          \<and> rawBalance rt v (Some (renderPath segs)) = Inr 0)
       \<and> (plain v \<and> ownOnly rt anyPath \<longrightarrow> (\<exists>w. getNestedValue rt v anyPath = Inr w))
       \<and> (\<forall>e. getNestedValue rt v anyPath = Inl e \<longrightarrow> (\<exists>b k. builtinProp rt b k = Inl e))"
proof -
  have split: "splitDot (renderPath segs) = map renderSegment segs"
    using assms by (rule splitDot_renderPath)
  have found: "addressed v segs = Found w \<Longrightarrow> getNestedValue rt v (renderPath segs) = Inr w" for w
    using reduce_address [OF assms(1), of v w rt] by (simp add: getNestedValue_def split)
  have missing: "addressed v segs = Missing \<Longrightarrow>
      list_all (\<lambda>s. inheritedBy rt OfObject (segmentName s) = None) segs \<Longrightarrow>
      getNestedValue rt v (renderPath segs) = Inr JUndefined"
    using reduce_address [OF assms(1), of v _ rt] by (simp add: getNestedValue_def split)
  have returns: "plain v \<Longrightarrow> ownOnly rt anyPath \<Longrightarrow> \<exists>w. getNestedValue rt v anyPath = Inr w"
    using reduce_plain [of v rt "splitDot anyPath"] by (simp add: getNestedValue_def ownOnly_def)
  have errors: "getNestedValue rt v anyPath = Inl e \<Longrightarrow> \<exists>b k. builtinProp rt b k = Inl e" for e
    using reduce_error [of rt v "splitDot anyPath" e] by (simp add: getNestedValue_def)
  show ?thesis
    using found missing returns errors rawBalance_missing by blast
qed

theorem getNestedValue_extraction_witness:
  "getNestedValue nodeRuntime (ofJson trongridBody) ''data[0].balance'' = Inr (JStr ''500'')
 \<and> rawBalance nodeRuntime (ofJson trongridBody) (Some ''data[0].balance'') = Inr 500
 \<and> list_all (\<lambda>s. inheritedBy nodeRuntime OfObject (segmentName s) = None)
       [KeyIndex ''data'' ''1'', Key ''balance'']
 \<and> getNestedValue nodeRuntime (ofJson trongridBody) ''data[1].balance'' = Inr JUndefined
 \<and> rawBalance nodeRuntime (ofJson trongridBody) (Some ''data[1].balance'') = Inr 0
 \<and> plain (ofJson trongridBody) \<and> ownOnly nodeRuntime ''data[1].balance''
 \<and> (\<exists>w. getNestedValue nodeRuntime (ofJson trongridBody) ''data[1].balance'' = Inr w)"
proof -
  have wf0: "list_all wellFormed [KeyIndex ''data'' ''0'', Key ''balance'']"
    by (simp add: isWordChar_def isDigit_def)
  have wf1: "list_all wellFormed [KeyIndex ''data'' ''1'', Key ''balance'']"
    by (simp add: isWordChar_def isDigit_def)
  have a0: "addressed (ofJson trongridBody) [KeyIndex ''data'' ''0'', Key ''balance'']
              = Found (JStr ''500'')"
    by (simp add: trongridBody_def decimalValue_def digitValue_def)
  have a1: "addressed (ofJson trongridBody) [KeyIndex ''data'' ''1'', Key ''balance''] = Missing"
    by (simp add: trongridBody_def decimalValue_def digitValue_def)
  have own: "list_all (\<lambda>s. inheritedBy nodeRuntime OfObject (segmentName s) = None)
               [KeyIndex ''data'' ''1'', Key ''balance'']"
    by (simp add: node_defs)
  have pl: "plain (ofJson trongridBody)"
    by (simp add: trongridBody_def)
  have oo: "ownOnly nodeRuntime ''data[1].balance''"
    by (simp add: ownOnly_def pieceNames_def matchAt_def isWordChar_def isDigit_def
          decimalValue_def digitValue_def showNat.simps holders_def node_defs)
  have v0: "getNestedValue nodeRuntime (ofJson trongridBody) ''data[0].balance'' = Inr (JStr ''500'')"
    using getNestedValue_extraction [OF wf0, of "ofJson trongridBody" nodeRuntime "[]"] a0 by simp
  have v1: "getNestedValue nodeRuntime (ofJson trongridBody) ''data[1].balance'' = Inr JUndefined
          \<and> rawBalance nodeRuntime (ofJson trongridBody) (Some ''data[1].balance'') = Inr 0
          \<and> (\<exists>w. getNestedValue nodeRuntime (ofJson trongridBody) ''data[1].balance'' = Inr w)"
    using getNestedValue_extraction
            [OF wf1, of "ofJson trongridBody" nodeRuntime "''data[1].balance''"] a1 own pl oo
    by simp
  have "toBigInt nodeRuntime (JStr ''500'') = Inr 500"
    by (simp add: stringToBigInt_def trim_def isWhiteSpace_def parseDigits_def radixDigit_def
          isDigit_def digitValue_def)
  with v0 have "rawBalance nodeRuntime (ofJson trongridBody) (Some ''data[0].balance'') = Inr 500"
    by (simp add: rawBalance_def nestedValueAt_def)
  with v0 v1 own pl oo show ?thesis by simp
qed

text \<open>
  C5 as stated fails in three ways. Where a segment is applied to a falsy scalar,
  \<open>o && o[i]\<close> is the scalar itself: for the body \<open>{"a": 0}\<close> and the path \<open>a.b.c\<close>
  the segment \<open>b\<close> is missing and the extractor returns 0, not \<open>undefined\<close>. Where a
  missing name is the name of an inherited member, the extractor returns that member:
  for \<open>{"a": {}}\<close> and \<open>a.constructor\<close> it returns the function \<open>Object\<close>, which
  \<open>BigInt\<close> refuses. And where the path goes on into a builtin it can throw: for
  \<open>{}\<close> and \<open>constructor.caller\<close> the getter of \<open>caller\<close> throws a \<open>TypeError\<close>.
\<close>

theorem getNestedValue_falsy_counterexample:
  "list_all wellFormed [Key ''a'', Key ''b'', Key ''c'']
 \<and> renderPath [Key ''a'', Key ''b'', Key ''c''] = ''a.b.c''
 \<and> addressed (JObj [(''a'', JNum 0)]) [Key ''a'', Key ''b'', Key ''c''] = NotContainer
 \<and> specExtract (JObj [(''a'', JNum 0)]) [Key ''a'', Key ''b'', Key ''c''] = JUndefined
 \<and> getNestedValue nodeRuntime (JObj [(''a'', JNum 0)]) ''a.b.c'' = Inr (JNum 0)
 \<and> addressed (JObj [(''a'', JObj [])]) [Key ''a'', Key ''constructor''] = Missing
 \<and> specExtract (JObj [(''a'', JObj [])]) [Key ''a'', Key ''constructor''] = JUndefined
 \<and> getNestedValue nodeRuntime (JObj [(''a'', JObj [])]) ''a.constructor'' = Inr (JBuiltin ''Object'')
 \<and> isl (rawBalance nodeRuntime (JObj [(''a'', JObj [])]) (Some ''a.constructor''))
 \<and> getNestedValue nodeRuntime (JObj []) ''constructor.caller'' = Inl restricted"
proof -
  have nb: "matchIndexed ''a'' = None" "matchIndexed ''b'' = None" "matchIndexed ''c'' = None"
    "matchIndexed ''constructor'' = None" "matchIndexed ''caller'' = None"
    by (rule matchIndexed_no_bracket, simp)+
  have g1: "getNestedValue nodeRuntime (JObj [(''a'', JNum 0)]) ''a.b.c'' = Inr (JNum 0)"
    by (simp add: getNestedValue_def reduceStep_def nb del: matchIndexed.simps)
  have g2: "getNestedValue nodeRuntime (JObj [(''a'', JObj [])]) ''a.constructor''
              = Inr (JBuiltin ''Object'')"
    by (simp add: getNestedValue_def reduceStep_def nb node_defs del: matchIndexed.simps)
  have g3: "getNestedValue nodeRuntime (JObj []) ''constructor.caller'' = Inl restricted"
    by (simp add: getNestedValue_def reduceStep_def nb node_defs del: matchIndexed.simps)
  have "isl (stringToBigInt ''function Object() { [native code] }'')"
    by (simp add: stringToBigInt_def trim_def isWhiteSpace_def parseDigits_def radixDigit_def
          isDigit_def digitValue_def cannotConvert_def)
  moreover have "primitiveOf nodeRuntime ''Object'' = JStr ''function Object() { [native code] }''"
    by (simp add: node_defs)
  ultimately have g4: "isl (rawBalance nodeRuntime (JObj [(''a'', JObj [])]) (Some ''a.constructor''))"
    by (simp add: rawBalance_def nestedValueAt_def g2)
  show ?thesis
    using g1 g2 g3 g4 by (simp add: specExtract_def)
qed

section \<open>Pipeline: what an attempt adds to the history\<close>

lemma sleeps_append [simp]: "sleeps (xs @ ys) = sleeps xs @ sleeps ys"
  by (simp add: sleeps_def)

lemma failures_append [simp]: "failures (xs @ ys) = failures xs @ failures ys"
  by (simp add: failures_def)

lemma requestedProviders_append [simp]:
  "requestedProviders (xs @ ys) = requestedProviders xs @ requestedProviders ys"
  by (simp add: requestedProviders_def)

lemma tokenEvents_sleeps: "list_all isTokenEvent xs \<Longrightarrow> sleeps xs = []"
  by (induction xs) (auto simp: sleeps_def elim!: isTokenEvent.elims)

lemma tokenEvents_failures: "list_all isTokenEvent xs \<Longrightarrow> failures xs = []"
  by (induction xs) (auto simp: failures_def elim!: isTokenEvent.elims)


lemma restBalance_trace:
  "snd (restBalance w cur a p tr) = tr @ [Request (ViaProvider (name p)) (Fetch (requestUrl p a))]"
  by (simp add: restBalance_def doFetch_def split: sum.splits)

lemma nativeBalance_trace:
  "\<exists>c. snd (nativeBalance w cur a p tr) = tr @ [Request (ViaProvider (name p)) c]"
  by (simp add: nativeBalance_def doRpc_def restBalance_trace split: sum.splits)

lemma usdtFetch_trace:
  "snd (usdtFetch w token url d tr) = tr @ [Request (TokenLookup token) (Fetch url)]"
  by (simp add: usdtFetch_def doFetch_def split: sum.splits)

lemma tronUsdt_trace:
  "\<exists>new. snd (case usdtFetch w token url d tr of
                   (Inl e, tr') \<Rightarrow> (Inr 0, tr' @ [ConsoleError (m e)])
                 | (Inr b, tr') \<Rightarrow> (Inr b, tr')) = tr @ new \<and> list_all isTokenEvent new"
  using usdtFetch_trace [of w token url d tr]
  by (cases "usdtFetch w token url d tr"; cases "fst (usdtFetch w token url d tr)") auto

lemma tronContract_trace:
  "\<exists>new. snd (case doRpc w (TokenLookup token) c tr of
                   (Inl e, tr') \<Rightarrow> (Inr 0, tr' @ [ConsoleError (m e)])
                 | (Inr b, tr') \<Rightarrow> (Inr b, tr')) = tr @ new \<and> list_all isTokenEvent new"
  by (cases "rpc w tr c") (auto simp: doRpc_def)

lemma tokenBalanceOf_trace:
  "\<exists>new. snd (tokenBalanceOf w cur a token info tr) = tr @ new \<and> list_all isTokenEvent new"
proof (cases "cur = ''ethereum''")
  case True
  then show ?thesis
    by (simp add: tokenBalanceOf_def usdtFetch_trace doRpc_def)
next
  case False
  show ?thesis
  proof (cases "cur = ''tron''")
    case True
    show ?thesis
    proof (cases "token = ''usdt''")
      case True
      with \<open>cur = ''tron''\<close> show ?thesis
        using tronUsdt_trace by (simp add: tokenBalanceOf_def)
    next
      case False
      with \<open>cur = ''tron''\<close> show ?thesis
        using tronContract_trace by (simp add: tokenBalanceOf_def)
    qed
  next
    case False
    with \<open>cur \<noteq> ''ethereum''\<close> show ?thesis by (simp add: tokenBalanceOf_def)
  qed
qed

lemma tokenLoop_trace:
  "\<exists>new. snd (tokenLoop w cur a toks acc tr) = tr @ new \<and> list_all isTokenEvent new"
proof (induction toks arbitrary: acc tr)
  case Nil
  then show ?case by simp
next
  case (Cons ti rest)
  obtain token info where ti: "ti = (token, info)" by (cases ti)
  obtain new where n: "snd (tokenBalanceOf w cur a token info tr) = tr @ new"
      "list_all isTokenEvent new"
    using tokenBalanceOf_trace by blast
  show ?case
  proof (cases "fst (tokenBalanceOf w cur a token info tr)")
    case (Inl e)
    with n ti show ?thesis by (auto simp: split_beta)
  next
    case (Inr b)
    obtain new' where "snd (tokenLoop w cur a rest
        (if b > 0 then assign token b acc else acc) (tr @ new)) = (tr @ new) @ new'"
        "list_all isTokenEvent new'"
      using Cons.IH by blast
    with Inr n ti show ?thesis by (auto simp: split_beta)
  qed
qed

lemma withTokens_trace:
  "\<exists>new. snd (withTokens w cur a net b tr) = tr @ new \<and> list_all isTokenEvent new"
proof (cases net)
  case None
  then show ?thesis by (simp add: withTokens_def)
next
  case (Some n)
  show ?thesis
  proof (cases "tokens n")
    case None
    with Some show ?thesis by (simp add: withTokens_def)
  next
    case (Some toks)
    obtain new where "snd (tokenLoop w cur a toks [] tr) = tr @ new" "list_all isTokenEvent new"
      using tokenLoop_trace by blast
    with Some \<open>net = Some n\<close> show ?thesis
      by (auto simp: withTokens_def split_beta split: sum.splits)
  qed
qed

lemma attempt_trace:
  "\<exists>c rest. snd (attempt w cur a p net tr) = tr @ Request (ViaProvider (name p)) c # rest
            \<and> list_all isTokenEvent rest"
proof -
  obtain c where c: "snd (nativeBalance w cur a p tr) = tr @ [Request (ViaProvider (name p)) c]"
    using nativeBalance_trace by blast
  show ?thesis
  proof (cases "fst (nativeBalance w cur a p tr)")
    case (Inl e)
    with c show ?thesis by (auto simp: attempt_def split_beta)
  next
    case (Inr stp)
    show ?thesis
    proof (cases stp)
      case (Return r)
      with Inr c show ?thesis by (auto simp: attempt_def split_beta)
    next
      case (Balance b)
      obtain new where "snd (withTokens w cur a net b (tr @ [Request (ViaProvider (name p)) c]))
          = (tr @ [Request (ViaProvider (name p)) c]) @ new" "list_all isTokenEvent new"
        using withTokens_trace by blast
      with Inr Balance c show ?thesis by (auto simp: attempt_def split_beta)
    qed
  qed
qed

lemma sleeps_Cons [simp]: "sleeps (e # xs) = sleptMs e @ sleeps xs"
  by (simp add: sleeps_def)

lemma failures_Cons [simp]:
  "failures (e # xs) = (if isAttemptError e then e # failures xs else failures xs)"
  by (simp add: failures_def)

lemma requestedProviders_Cons [simp]:
  "requestedProviders (e # xs) = providerOf e @ requestedProviders xs"
  by (simp add: requestedProviders_def)

lemma sleeps_Nil [simp]: "sleeps [] = []"
  by (simp add: sleeps_def)

lemma failures_Nil [simp]: "failures [] = []"
  by (simp add: failures_def)

lemma requestedProviders_Nil [simp]: "requestedProviders [] = []"
  by (simp add: requestedProviders_def)

lemma after_request_sleeps:
  "list_all isTokenEvent rest \<Longrightarrow> sleeps (tr @ Request (ViaProvider n) c # rest) = sleeps tr"
  by (simp add: tokenEvents_sleeps)

lemma after_request_failures:
  "list_all isTokenEvent rest \<Longrightarrow> failures (tr @ Request (ViaProvider n) c # rest) = failures tr"
  by (simp add: tokenEvents_failures)


lemma attempt_sleeps: "sleeps (snd (attempt w cur a p net tr)) = sleeps tr"
proof -
  obtain c rest where eq: "snd (attempt w cur a p net tr) = tr @ Request (ViaProvider (name p)) c # rest"
      and tok: "list_all isTokenEvent rest"
    using attempt_trace by blast
  show ?thesis unfolding eq using tok by (rule after_request_sleeps)
qed

lemma attempt_failures: "failures (snd (attempt w cur a p net tr)) = failures tr"
proof -
  obtain c rest where eq: "snd (attempt w cur a p net tr) = tr @ Request (ViaProvider (name p)) c # rest"
      and tok: "list_all isTokenEvent rest"
    using attempt_trace by blast
  show ?thesis unfolding eq using tok by (rule after_request_failures)
qed



lemma retryLoop_three:
  "retryLoop w c a p net 3 d tr =
     (case attempt w c a p net tr of
        (Inr r, tr1) \<Rightarrow> (Inr (Some r), tr1)
      | (Inl e1, tr1) \<Rightarrow>
          (case attempt w c a p net (tr1 @ [AttemptError (name p) 2 (message e1), Slept d]) of
             (Inr r, tr2) \<Rightarrow> (Inr (Some r), tr2)
           | (Inl e2, tr2) \<Rightarrow>
               (case attempt w c a p net
                       (tr2 @ [AttemptError (name p) 1 (message e2), Slept (d * 2)]) of
                  (Inr r, tr3) \<Rightarrow> (Inr (Some r), tr3)
                | (Inl e3, tr3) \<Rightarrow> (Inr None, tr3 @ [AttemptError (name p) 0 (message e3)]))))"
proof -
  have three: "(3::nat) = Suc (Suc (Suc 0))" and two: "(2::nat) = Suc (Suc 0)" by simp_all
  show ?thesis
    unfolding three retryLoop.simps two
    by (cases "attempt w c a p net tr"; cases "fst (attempt w c a p net tr)")
       (auto split: prod.splits sum.splits)
qed

lemma attempt_sleeps': "attempt w c a p net tr = (x, tr') \<Longrightarrow> sleeps tr' = sleeps tr"
  using attempt_sleeps [of w c a p net tr] by simp

lemma attempt_failures': "attempt w c a p net tr = (x, tr') \<Longrightarrow> failures tr' = failures tr"
  using attempt_failures [of w c a p net tr] by simp


lemma retryLoop_returns: "\<exists>ro. fst (retryLoop w c a p net n d tr) = Inr ro"
proof (induction n arbitrary: d tr)
  case 0
  then show ?case by simp
next
  case (Suc n)
  obtain x tr' where at: "attempt w c a p net tr = (x, tr')" by (cases "attempt w c a p net tr")
  show ?case
  proof (cases x)
    case (Inr r)
    with at show ?thesis by simp
  next
    case (Inl e)
    with at Suc show ?thesis by (cases "n > 0") simp_all
  qed
qed

text \<open>
  The retry loop of one provider, as the \<open>for\<close> loop starts it: either it gives up
  after three failures and the two sleeps, or it returns a result after at most two
  failures, each followed by its sleep.
\<close>

lemma retryLoop_schedule:
  "(fst (retryLoop w c a p net 3 4000 tr) = Inr None
      \<and> sleeps (snd (retryLoop w c a p net 3 4000 tr)) = sleeps tr @ [4000, 8000]
      \<and> length (failures (snd (retryLoop w c a p net 3 4000 tr))) = length (failures tr) + 3)
 \<or> (\<exists>r k. k \<le> 2 \<and> fst (retryLoop w c a p net 3 4000 tr) = Inr (Some r)
      \<and> sleeps (snd (retryLoop w c a p net 3 4000 tr)) = sleeps tr @ take k [4000, 8000]
      \<and> length (failures (snd (retryLoop w c a p net 3 4000 tr))) = length (failures tr) + k)"
proof -
  obtain x1 tr1 where a1: "attempt w c a p net tr = (x1, tr1)" by (cases "attempt w c a p net tr")
  show ?thesis
  proof (cases x1)
    case (Inr r)
    with a1 have "fst (retryLoop w c a p net 3 4000 tr) = Inr (Some r)"
        "sleeps (snd (retryLoop w c a p net 3 4000 tr)) = sleeps tr @ take 0 [4000, 8000]"
        "length (failures (snd (retryLoop w c a p net 3 4000 tr))) = length (failures tr) + 0"
      by (simp_all add: retryLoop_three attempt_sleeps' attempt_failures')
    then show ?thesis by (intro disjI2 exI [of _ r] exI [of _ 0]) simp
  next
    case (Inl e1)
    obtain x2 tr2 where a2: "attempt w c a p net (tr1 @ [AttemptError (name p) 2 (message e1), Slept 4000])
        = (x2, tr2)"
      by (cases "attempt w c a p net (tr1 @ [AttemptError (name p) 2 (message e1), Slept 4000])")
    show ?thesis
    proof (cases x2)
      case (Inr r)
      with a1 a2 Inl
      have "fst (retryLoop w c a p net 3 4000 tr) = Inr (Some r)"
          "sleeps (snd (retryLoop w c a p net 3 4000 tr)) = sleeps tr @ take 1 [4000, 8000]"
          "length (failures (snd (retryLoop w c a p net 3 4000 tr))) = length (failures tr) + 1"
        using attempt_sleeps' [OF a1] attempt_failures' [OF a1]
              attempt_sleeps' [OF a2] attempt_failures' [OF a2]
        by (simp_all add: retryLoop_three)
      then show ?thesis by (intro disjI2 exI [of _ r] exI [of _ 1]) simp
    next
      case e2: (Inl e2)
      obtain x3 tr3 where a3: "attempt w c a p net (tr2 @ [AttemptError (name p) 1 (message e2), Slept 8000])
          = (x3, tr3)"
        by (cases "attempt w c a p net (tr2 @ [AttemptError (name p) 1 (message e2), Slept 8000])")
      show ?thesis
      proof (cases x3)
        case (Inr r)
        have "fst (retryLoop w c a p net 3 4000 tr) = Inr (Some r)"
            "sleeps (snd (retryLoop w c a p net 3 4000 tr)) = sleeps tr @ take 2 [4000, 8000]"
            "length (failures (snd (retryLoop w c a p net 3 4000 tr))) = length (failures tr) + 2"
          using a1 a2 a3 Inl e2 Inr
                attempt_sleeps' [OF a1] attempt_failures' [OF a1]
                attempt_sleeps' [OF a2] attempt_failures' [OF a2]
                attempt_sleeps' [OF a3] attempt_failures' [OF a3]
          by (simp_all add: retryLoop_three)
        then show ?thesis by (intro disjI2 exI [of _ r] exI [of _ 2]) simp
      next
        case e3: (Inl e3)
        have "fst (retryLoop w c a p net 3 4000 tr) = Inr None"
            "sleeps (snd (retryLoop w c a p net 3 4000 tr)) = sleeps tr @ [4000, 8000]"
            "length (failures (snd (retryLoop w c a p net 3 4000 tr))) = length (failures tr) + 3"
          using a1 a2 a3 Inl e2 e3
                attempt_sleeps' [OF a1] attempt_failures' [OF a1]
                attempt_sleeps' [OF a2] attempt_failures' [OF a2]
                attempt_sleeps' [OF a3] attempt_failures' [OF a3]
          by (simp_all add: retryLoop_three)
        then show ?thesis by (intro disjI1) simp
      qed
    qed
  qed
qed

text \<open>The \<open>for\<close> loop: some providers give up, and the next one, if any, returns.\<close>

lemma providersLoop_schedule:
  "\<exists>n k. n \<le> length ps \<and> k \<le> 2 \<and> (n = length ps \<longrightarrow> k = 0)
     \<and> sleeps (snd (providersLoop w c a net ps tr))
         = sleeps tr @ concat (replicate n [4000, 8000]) @ take k [4000, 8000]
     \<and> length (failures (snd (providersLoop w c a net ps tr)))
         = length (failures tr) + 3 * n + k"
proof (induction ps arbitrary: tr)
  case Nil
  show ?case by (intro exI [of _ 0]) simp
next
  case (Cons p ps)
  obtain x tr' where rl: "retryLoop w c a p net 3 4000 tr = (x, tr')"
    by (cases "retryLoop w c a p net 3 4000 tr")
  from retryLoop_schedule [of w c a p net tr] rl
  consider (gaveUp) "x = Inr None" "sleeps tr' = sleeps tr @ [4000, 8000]"
      "length (failures tr') = length (failures tr) + 3"
    | (returned) r k where "k \<le> 2" "x = Inr (Some r)" "sleeps tr' = sleeps tr @ take k [4000, 8000]"
      "length (failures tr') = length (failures tr) + k"
    by auto
  then show ?case
  proof cases
    case gaveUp
    obtain n k where nk: "n \<le> length ps" "k \<le> 2" "n = length ps \<longrightarrow> k = 0"
        "sleeps (snd (providersLoop w c a net ps tr'))
           = sleeps tr' @ concat (replicate n [4000, 8000]) @ take k [4000, 8000]"
        "length (failures (snd (providersLoop w c a net ps tr')))
           = length (failures tr') + 3 * n + k"
      using Cons.IH [of tr'] by blast
    have "providersLoop w c a net (p # ps) tr = providersLoop w c a net ps tr'"
      using rl gaveUp(1) by simp
    with nk gaveUp show ?thesis
      by (intro exI [of _ "Suc n"] exI [of _ k]) simp
  next
    case returned
    have "providersLoop w c a net (p # ps) tr = (Inr r, tr')"
      using rl returned(2) by simp
    with returned show ?thesis
      by (intro exI [of _ 0] exI [of _ k]) simp
  qed
qed

lemma getBalance_own:
  "currency \<noteq> ''bitcoin'' \<Longrightarrow> providersOf w currency = Own (p # ps) \<Longrightarrow>
     getBalance w currency a tr = providersLoop w currency a (networks currency) (p # ps) tr"
  by (simp add: getBalance_def)

text \<open>
  C8. For a currency with a provider list of its own, \<open>getBalance\<close> sleeps only after a
  failed attempt that leaves retries, for 4000 ms after the first failure of a provider
  and 8000 ms after its second: the sleeps it adds to a history are 4000, 8000 for every
  provider that gave up after three failures, followed by the first k of 4000, 8000 for
  the provider that returned after k failures. When the first two attempts of the first
  provider fail and the third returns a result, \<open>getBalance\<close> returns that result after
  sleeping 4000 + 8000 ms and logging exactly the two failures. After the second failure
  the loop goes on with one retry and a delay of 16000 ms, which a third failure, leaving
  no retry, does not sleep.
\<close>

theorem backoff_schedule:
  assumes "currency \<noteq> ''bitcoin''" and "providersOf w currency = Own (p # ps)"
  shows
  "(\<exists>n k. n \<le> length (p # ps) \<and> k \<le> 2 \<and> (n = length (p # ps) \<longrightarrow> k = 0)
      \<and> sleeps (snd (getBalance w currency a tr))
          = sleeps tr @ concat (replicate n [4000, 8000]) @ take k [4000, 8000]
      \<and> length (failures (snd (getBalance w currency a tr)))
          = length (failures tr) + 3 * n + k)
 \<and> (\<forall>e1 e2 r tr1 tr2.
        attempt w currency a p (networks currency) tr = (Inl e1, tr1)
      \<and> attempt w currency a p (networks currency)
          (tr1 @ [AttemptError (name p) 2 (message e1), Slept 4000]) = (Inl e2, tr2)
      \<and> fst (attempt w currency a p (networks currency)
               (tr2 @ [AttemptError (name p) 1 (message e2), Slept 8000])) = Inr r
      \<longrightarrow> fst (getBalance w currency a tr) = Inr r
        \<and> sleeps (snd (getBalance w currency a tr)) = sleeps tr @ [4000, 8000]
        \<and> sum_list (sleeps (snd (getBalance w currency a tr))) = sum_list (sleeps tr) + 12000
        \<and> failures (snd (getBalance w currency a tr))
            = failures tr @ [AttemptError (name p) 2 (message e1),
                             AttemptError (name p) 1 (message e2)])
 \<and> (\<forall>e1 e2 tr1 tr2.
        attempt w currency a p (networks currency) tr = (Inl e1, tr1)
      \<and> attempt w currency a p (networks currency)
          (tr1 @ [AttemptError (name p) 2 (message e1), Slept 4000]) = (Inl e2, tr2)
      \<longrightarrow> getBalance w currency a tr
          = (case retryLoop w currency a p (networks currency) 1 16000
                    (tr2 @ [AttemptError (name p) 1 (message e2), Slept 8000]) of
               (Inl e, tr') \<Rightarrow> (Inl e, tr')
             | (Inr (Some r), tr') \<Rightarrow> (Inr r, tr')
             | (Inr None, tr') \<Rightarrow> providersLoop w currency a (networks currency) ps tr'))"
proof (intro conjI allI impI)
  let ?net = "networks currency"
  have gb: "getBalance w currency a tr = providersLoop w currency a ?net (p # ps) tr" for tr
    using assms by (rule getBalance_own)
  show "\<exists>n k. n \<le> length (p # ps) \<and> k \<le> 2 \<and> (n = length (p # ps) \<longrightarrow> k = 0)
      \<and> sleeps (snd (getBalance w currency a tr))
          = sleeps tr @ concat (replicate n [4000, 8000]) @ take k [4000, 8000]
      \<and> length (failures (snd (getBalance w currency a tr)))
          = length (failures tr) + 3 * n + k"
    unfolding gb by (rule providersLoop_schedule)
  {
    fix e1 e2 tr1 tr2
    assume h: "attempt w currency a p ?net tr = (Inl e1, tr1)
      \<and> attempt w currency a p ?net (tr1 @ [AttemptError (name p) 2 (message e1), Slept 4000])
          = (Inl e2, tr2)"
    then have "retryLoop w currency a p ?net 3 4000 tr
          = retryLoop w currency a p ?net 1 16000
              (tr2 @ [AttemptError (name p) 1 (message e2), Slept 8000])"
      by (simp add: retryLoop_three split: prod.splits sum.splits)
    then show "getBalance w currency a tr
          = (case retryLoop w currency a p ?net 1 16000
                    (tr2 @ [AttemptError (name p) 1 (message e2), Slept 8000]) of
               (Inl e, tr') \<Rightarrow> (Inl e, tr')
             | (Inr (Some r), tr') \<Rightarrow> (Inr r, tr')
             | (Inr None, tr') \<Rightarrow> providersLoop w currency a ?net ps tr')"
      unfolding gb by (simp split: prod.splits sum.splits option.splits)
  }
  fix e1 e2 r tr1 tr2
  assume h: "attempt w currency a p ?net tr = (Inl e1, tr1)
      \<and> attempt w currency a p ?net (tr1 @ [AttemptError (name p) 2 (message e1), Slept 4000])
          = (Inl e2, tr2)
      \<and> fst (attempt w currency a p ?net (tr2 @ [AttemptError (name p) 1 (message e2), Slept 8000]))
          = Inr r"
  then have a1: "attempt w currency a p ?net tr = (Inl e1, tr1)"
    and a2: "attempt w currency a p ?net (tr1 @ [AttemptError (name p) 2 (message e1), Slept 4000])
               = (Inl e2, tr2)"
    by simp_all
  obtain tr3 where a3: "attempt w currency a p ?net
      (tr2 @ [AttemptError (name p) 1 (message e2), Slept 8000]) = (Inr r, tr3)"
    using h by (cases "attempt w currency a p ?net
      (tr2 @ [AttemptError (name p) 1 (message e2), Slept 8000])") auto
  have "retryLoop w currency a p ?net 3 4000 tr = (Inr (Some r), tr3)"
    using a1 a2 a3 by (simp add: retryLoop_three)
  then have R: "getBalance w currency a tr = (Inr r, tr3)"
    unfolding gb by simp
  have s: "sleeps tr3 = sleeps tr @ [4000, 8000]"
    using attempt_sleeps' [OF a1] attempt_sleeps' [OF a2] attempt_sleeps' [OF a3] by simp
  have f: "failures tr3 = failures tr @ [AttemptError (name p) 2 (message e1),
                                         AttemptError (name p) 1 (message e2)]"
    using attempt_failures' [OF a1] attempt_failures' [OF a2] attempt_failures' [OF a3] by simp
  show "fst (getBalance w currency a tr) = Inr r" using R by simp
  show "sleeps (snd (getBalance w currency a tr)) = sleeps tr @ [4000, 8000]"
    using R s by simp
  show "sum_list (sleeps (snd (getBalance w currency a tr))) = sum_list (sleeps tr) + 12000"
    using R s by simp
  show "failures (snd (getBalance w currency a tr))
            = failures tr @ [AttemptError (name p) 2 (message e1),
                             AttemptError (name p) 1 (message e2)]"
    using R f by simp
qed

lemma roundScaled_undefined: "roundScaled rt JUndefined d = None"
  by (simp add: roundScaled_def)

lemmas run_defs = attempt_def nativeBalance_def restBalance_def restResult_def doFetch_def
  doRpc_def requestUrl_def json_def tronEmptyAccount_def etherscanCheck_def rawBalance_def
  nestedValueAt_def getNestedValue_def reduceStep_def matchAt_def isWordChar_def isDigit_def
  decimalValue_def digitValue_def withTokens_def tokenBalanceOf_def usdtFetch_def usdtResult_def
  scaledBalance_def stringToBigInt_def trim_def isWhiteSpace_def parseDigits_def radixDigit_def
  failures_def networks_def okResponse_def errorResponse_def statusError_def
  apiProviders_def cannotConvert_def providersOf_def tableMember_def roundScaled_undefined
  node_defs

lemma flaky_first:
  "attempt flakyWorld ''tron'' ''TAddr'' trongrid (networks ''tron'') [] =
     (Inl (Error ''socket hang up''),
      [Request (ViaProvider ''trongrid'') (Fetch ''https://api.trongrid.io/v1/accounts/TAddr'')])"
  by (simp add: run_defs flakyWorld_def trongrid_def)

lemma flaky_second:
  "attempt flakyWorld ''tron'' ''TAddr'' trongrid (networks ''tron'')
     ([Request (ViaProvider ''trongrid'') (Fetch ''https://api.trongrid.io/v1/accounts/TAddr'')]
      @ [AttemptError (name trongrid) 2 (message (Error ''socket hang up'')), Slept 4000]) =
     (Inl (Error ''socket hang up''),
      [Request (ViaProvider ''trongrid'') (Fetch ''https://api.trongrid.io/v1/accounts/TAddr''),
       AttemptError ''trongrid'' 2 ''socket hang up'', Slept 4000,
       Request (ViaProvider ''trongrid'') (Fetch ''https://api.trongrid.io/v1/accounts/TAddr'')])"
  by (simp add: run_defs flakyWorld_def trongrid_def)

lemma flaky_third:
  "fst (attempt flakyWorld ''tron'' ''TAddr'' trongrid (networks ''tron'')
     ([Request (ViaProvider ''trongrid'') (Fetch ''https://api.trongrid.io/v1/accounts/TAddr''),
       AttemptError ''trongrid'' 2 ''socket hang up'', Slept 4000,
       Request (ViaProvider ''trongrid'') (Fetch ''https://api.trongrid.io/v1/accounts/TAddr'')]
      @ [AttemptError (name trongrid) 1 (message (Error ''socket hang up'')), Slept 8000])) =
     Inr \<lparr>native = 500, resultTokens = None\<rparr>"
  by (simp add: run_defs flakyWorld_def trongrid_def trongridBody_def)

lemma flaky_providers: "providersOf flakyWorld ''tron'' = Own (trongrid # [])"
  by (simp add: providersOf_def tableMember_def apiProviders_def flakyWorld_def trongrid_def)

theorem backoff_schedule_witness:
  "''tron'' \<noteq> ''bitcoin'' \<and> providersOf flakyWorld ''tron'' = Own [trongrid]
 \<and> fst (getBalance flakyWorld ''tron'' ''TAddr'' []) = Inr \<lparr>native = 500, resultTokens = None\<rparr>
 \<and> sleeps (snd (getBalance flakyWorld ''tron'' ''TAddr'' [])) = [4000, 8000]
 \<and> sum_list (sleeps (snd (getBalance flakyWorld ''tron'' ''TAddr'' []))) = 12000
 \<and> failures (snd (getBalance flakyWorld ''tron'' ''TAddr'' []))
     = [AttemptError ''trongrid'' 2 ''socket hang up'', AttemptError ''trongrid'' 1 ''socket hang up'']"
proof -
  have ne: "''tron'' \<noteq> ''bitcoin''" by simp
  note run = backoff_schedule [OF ne flaky_providers, of "''TAddr''" "[]",
      THEN conjunct2, THEN conjunct1, rule_format,
      OF conjI [OF flaky_first conjI [OF flaky_second flaky_third]]]
  from run flaky_providers show ?thesis by (simp add: trongrid_def)
qed

section \<open>Pipeline: no error escapes\<close>

lemma providersLoop_returns: "\<exists>r. fst (providersLoop w c a net ps tr) = Inr r"
proof (induction ps arbitrary: tr)
  case Nil
  then show ?case by simp
next
  case (Cons p ps)
  obtain x tr' where rl: "retryLoop w c a p net 3 4000 tr = (x, tr')"
    by (cases "retryLoop w c a p net 3 4000 tr")
  obtain ro where "x = Inr ro" using retryLoop_returns [of w c a p net 3 4000 tr] rl by auto
  with rl Cons.IH [of tr'] show ?case by (cases ro) auto
qed

lemma bitcoinBranch_returns: "\<exists>r. fst (bitcoinBranch w a tr) = Inr r"
  by (auto simp: bitcoinBranch_def split: prod.splits sum.splits option.splits)

lemma inherited_member:
  "providersOf w currency = Inherited v \<Longrightarrow> v = inherited (js w) OfObject currency"
  by (auto simp: providersOf_def tableMember_def split: option.splits)

text \<open>
  The currencies for which \<open>apiProviders[currency]\<close> is not an inherited member:
  \<open>bitcoin\<close>, which is answered before the table is read, a currency with a list of
  its own, and a name that objects do not inherit.
\<close>

lemma getBalance_returns:
  assumes "currency = ''bitcoin'' \<or> (\<exists>ps. providersOf w currency = Own ps)
         \<or> inheritedBy (js w) OfObject currency = None"
  shows "\<exists>r. fst (getBalance w currency a tr) = Inr r"
proof (cases "currency = ''bitcoin''")
  case True
  then show ?thesis by (simp add: getBalance_def bitcoinBranch_returns)
next
  case False
  show ?thesis
  proof (cases "providersOf w currency")
    case (Own ps)
    with False show ?thesis by (simp add: getBalance_def providersLoop_returns)
  next
    case (Inherited v)
    with assms False have "v = JUndefined"
      using inherited_member [OF Inherited] by (simp add: inherited_def)
    with False Inherited show ?thesis by (simp add: getBalance_def)
  qed
qed

lemma retryLoop_all_fail:
  assumes "\<forall>tr. isl (fst (attempt w c a p net tr))"
  shows "fst (retryLoop w c a p net n d tr) = Inr None"
proof (induction n arbitrary: d tr)
  case 0
  then show ?case by simp
next
  case (Suc n)
  obtain x tr' where at: "attempt w c a p net tr = (x, tr')" by (cases "attempt w c a p net tr")
  then obtain e where "x = Inl e" using assms [rule_format, of tr] by (cases x) auto
  with at Suc.IH [of "d * 2" "tr' @ [AttemptError (name p) n (message e), Slept d]"]
  show ?case by simp
qed

lemma providersLoop_all_fail:
  assumes "\<forall>p\<in>set ps. \<forall>tr. isl (fst (attempt w c a p net tr))"
  shows "fst (providersLoop w c a net ps tr) = Inr zeroBalance"
  using assms
proof (induction ps arbitrary: tr)
  case Nil
  then show ?case by simp
next
  case (Cons p ps)
  obtain x tr' where rl: "retryLoop w c a p net 3 4000 tr = (x, tr')"
    by (cases "retryLoop w c a p net 3 4000 tr")
  have "x = Inr None"
    using retryLoop_all_fail [of w c a p net 3 4000 tr] Cons.prems rl by simp
  with rl Cons show ?case by simp
qed

lemma bitcoinBranch_all_fail:
  assumes "\<forall>tr r. fst (bitcoinTry w a tr) \<noteq> Inr (Some r)"
  shows "fst (bitcoinBranch w a tr) = Inr zeroBalance"
proof -
  obtain x tr' where bt: "bitcoinTry w a tr = (x, tr')" by (cases "bitcoinTry w a tr")
  have "x \<noteq> Inr (Some r)" for r using assms [rule_format, of tr r] bt by simp
  with bt show ?thesis
    by (auto simp: bitcoinBranch_def split: sum.splits option.splits)
qed

lemma retryLoop_from_attempt:
  "fst (retryLoop w c a p net n d tr) = Inr (Some r) \<Longrightarrow>
     \<exists>tr0. fst (attempt w c a p net tr0) = Inr r"
proof (induction n arbitrary: d tr)
  case 0
  then show ?case by simp
next
  case (Suc n)
  obtain x tr' where at: "attempt w c a p net tr = (x, tr')" by (cases "attempt w c a p net tr")
  show ?case
  proof (cases x)
    case (Inr r')
    with at Suc.prems have "fst (attempt w c a p net tr) = Inr r" by simp
    then show ?thesis by blast
  next
    case (Inl e)
    with at Suc.prems have "n > 0"
      and "fst (retryLoop w c a p net n (d * 2)
                  (tr' @ [AttemptError (name p) n (message e), Slept d])) = Inr (Some r)"
      by (auto split: if_splits)
    then show ?thesis using Suc.IH by blast
  qed
qed

lemma providersLoop_from_attempt:
  "fst (providersLoop w c a net ps tr) = Inr r \<Longrightarrow>
     r = zeroBalance \<or> (\<exists>p\<in>set ps. \<exists>tr0. fst (attempt w c a p net tr0) = Inr r)"
proof (induction ps arbitrary: tr)
  case Nil
  then show ?case by simp
next
  case (Cons p ps)
  obtain x tr' where rl: "retryLoop w c a p net 3 4000 tr = (x, tr')"
    by (cases "retryLoop w c a p net 3 4000 tr")
  obtain ro where x: "x = Inr ro" using retryLoop_returns [of w c a p net 3 4000 tr] rl by auto
  show ?case
  proof (cases ro)
    case None
    with rl x Cons.prems have "fst (providersLoop w c a net ps tr') = Inr r" by simp
    with Cons.IH show ?thesis by auto
  next
    case (Some r')
    with rl x Cons.prems have "fst (retryLoop w c a p net 3 4000 tr) = Inr (Some r)" by simp
    then show ?thesis using retryLoop_from_attempt by fastforce
  qed
qed

lemma bitcoinBranch_from_try:
  "fst (bitcoinBranch w a tr) = Inr r \<Longrightarrow>
     r = zeroBalance \<or> (\<exists>tr0. fst (bitcoinTry w a tr0) = Inr (Some r))"
proof -
  assume h: "fst (bitcoinBranch w a tr) = Inr r"
  obtain x tr' where bt: "bitcoinTry w a tr = (x, tr')" by (cases "bitcoinTry w a tr")
  show ?thesis
  proof (cases "x = Inr (Some r)")
    case True
    with bt have "fst (bitcoinTry w a tr) = Inr (Some r)" by simp
    then show ?thesis by blast
  next
    case False
    with bt h show ?thesis
      by (auto simp: bitcoinBranch_def split: sum.splits option.splits)
  qed
qed

lemma getBalance_from_attempt:
  assumes "fst (getBalance w currency address tr) = Inr r"
  shows "r = zeroBalance
       \<or> (currency = ''bitcoin'' \<and> (\<exists>tr0. fst (bitcoinTry w address tr0) = Inr (Some r)))
       \<or> (currency \<noteq> ''bitcoin'' \<and> (\<exists>p\<in>set (configured w currency). \<exists>tr0.
             fst (attempt w currency address p (networks currency) tr0) = Inr r))"
proof (cases "currency = ''bitcoin''")
  case True
  with assms show ?thesis using bitcoinBranch_from_try [of w address tr r]
    by (auto simp: getBalance_def)
next
  case False
  show ?thesis
  proof (cases "providersOf w currency")
    case (Inherited v)
    with False assms show ?thesis
      by (auto simp: getBalance_def split: if_splits sum.splits)
  next
    case (Own ps)
    show ?thesis
    proof (cases "length ps = 0")
      case True
      with False Own assms show ?thesis by (simp add: getBalance_def)
    next
      case nonempty: False
      with False Own assms
      have "fst (providersLoop w currency address (networks currency) ps tr) = Inr r"
        by (simp add: getBalance_def)
      from providersLoop_from_attempt [OF this]
      have "r = zeroBalance \<or> (\<exists>p\<in>set ps. \<exists>tr0.
              fst (attempt w currency address p (networks currency) tr0) = Inr r)" .
      moreover have "configured w currency = ps" using Own by (simp add: configured_def)
      ultimately show ?thesis using False by simp
    qed
  qed
qed

text \<open>
  Where \<open>apiProviders[currency]\<close> is not an inherited member, \<open>getBalance\<close> returns a
  result for every world, address and history. When no attempt can succeed (network
  errors, statuses that are not ok, rate limiting, bodies that are no JSON or hold a
  malformed number, an empty or absent provider list) the result is the zero balance; and
  a result other than the zero balance is always one that an attempt returned.
\<close>

lemma getBalance_degrades:
  assumes "currency = ''bitcoin'' \<or> (\<exists>ps. providersOf w currency = Own ps)
         \<or> inheritedBy (js w) OfObject currency = None"
  shows "(\<exists>r. fst (getBalance w currency address tr) = Inr r)
 \<and> (everyAttemptFails w currency address \<longrightarrow>
      fst (getBalance w currency address tr) = Inr zeroBalance)
 \<and> (\<forall>r. fst (getBalance w currency address tr) = Inr r \<longrightarrow>
        r = zeroBalance
      \<or> (currency = ''bitcoin'' \<and> (\<exists>tr0. fst (bitcoinTry w address tr0) = Inr (Some r)))
      \<or> (currency \<noteq> ''bitcoin'' \<and> (\<exists>p\<in>set (configured w currency). \<exists>tr0.
            fst (attempt w currency address p (networks currency) tr0) = Inr r)))"
proof (intro conjI impI allI)
  show "\<exists>r. fst (getBalance w currency address tr) = Inr r"
    using assms by (rule getBalance_returns)
next
  fix r
  assume "fst (getBalance w currency address tr) = Inr r"
  then show "r = zeroBalance
      \<or> (currency = ''bitcoin'' \<and> (\<exists>tr0. fst (bitcoinTry w address tr0) = Inr (Some r)))
      \<or> (currency \<noteq> ''bitcoin'' \<and> (\<exists>p\<in>set (configured w currency). \<exists>tr0.
            fst (attempt w currency address p (networks currency) tr0) = Inr r))"
    by (rule getBalance_from_attempt)
next
  assume fails: "everyAttemptFails w currency address"
  show "fst (getBalance w currency address tr) = Inr zeroBalance"
  proof (cases "currency = ''bitcoin''")
    case True
    with fails show ?thesis
      by (simp add: getBalance_def everyAttemptFails_def bitcoinBranch_all_fail)
  next
    case False
    show ?thesis
    proof (cases "providersOf w currency")
      case (Inherited v)
      with assms False have "v = JUndefined"
        using inherited_member [OF Inherited] by (simp add: inherited_def)
      with False Inherited show ?thesis by (simp add: getBalance_def)
    next
      case (Own ps)
      with False fails
      have "\<forall>p\<in>set ps. \<forall>tr. isl (fst (attempt w currency address p (networks currency) tr))"
        by (simp add: everyAttemptFails_def)
      then have "fst (providersLoop w currency address (networks currency) ps tr) = Inr zeroBalance"
        by (rule providersLoop_all_fail)
      with False Own show ?thesis by (simp add: getBalance_def)
    qed
  qed
qed

lemma getBalance_zero:
  assumes "currency = ''bitcoin'' \<or> (\<exists>ps. providersOf w currency = Own ps)
         \<or> inheritedBy (js w) OfObject currency = None"
    and "everyAttemptFails w currency address"
  shows "fst (getBalance w currency address tr) = Inr zeroBalance"
  using getBalance_degrades [OF assms(1), of address tr] assms(2) by blast

lemma tron_fails_dead: "everyAttemptFails deadWorld ''tron'' ''TAddr''"
  by (simp add: everyAttemptFails_def run_defs deadWorld_def)

lemma tron_fails_500: "everyAttemptFails (statusWorld 500) ''tron'' ''TAddr''"
  by (simp add: everyAttemptFails_def run_defs statusWorld_def)

lemma eth_fails_429: "everyAttemptFails (statusWorld 429) ''ethereum'' ''0xabc''"
  by (simp add: everyAttemptFails_def run_defs statusWorld_def)

lemma tron_fails_garbled: "everyAttemptFails garbledWorld ''tron'' ''TAddr''"
  by (simp add: everyAttemptFails_def run_defs garbledWorld_def)

lemma tron_fails_malformed: "everyAttemptFails (bodyWorld malformedBody) ''tron'' ''TAddr''"
  by (simp add: everyAttemptFails_def run_defs bodyWorld_def malformedBody_def)

lemma doge_fails: "everyAttemptFails deadWorld ''dogecoin'' ''DAddr''"
  by (simp add: everyAttemptFails_def run_defs deadWorld_def)

lemma bitcoin_fails_dead: "everyAttemptFails deadWorld ''bitcoin'' ''1Addr''"
  by (simp add: everyAttemptFails_def bitcoinTry_def doFetch_def deadWorld_def)

lemma own_tron: "\<exists>ps. providersOf w ''tron'' = Own ps"
  by (simp add: providersOf_def tableMember_def apiProviders_def)

lemma own_ethereum: "\<exists>ps. providersOf w ''ethereum'' = Own ps"
  by (simp add: providersOf_def tableMember_def apiProviders_def)

lemma dogecoin_not_inherited: "inheritedBy (js deadWorld) OfObject ''dogecoin'' = None"
  by (simp add: deadWorld_def node_defs)

text \<open>
  The failure modes one by one: a dead network, status 500, status 429, a body that is no
  JSON, a malformed number, a currency without providers, the aggregator of bitcoin.
\<close>

lemma getBalance_failure_modes:
  "fst (getBalance deadWorld ''tron'' ''TAddr'' []) = Inr zeroBalance
 \<and> fst (getBalance (statusWorld 500) ''tron'' ''TAddr'' []) = Inr zeroBalance
 \<and> fst (getBalance (statusWorld 429) ''ethereum'' ''0xabc'' []) = Inr zeroBalance
 \<and> fst (getBalance garbledWorld ''tron'' ''TAddr'' []) = Inr zeroBalance
 \<and> fst (getBalance (bodyWorld malformedBody) ''tron'' ''TAddr'' []) = Inr zeroBalance
 \<and> fst (getBalance deadWorld ''dogecoin'' ''DAddr'' []) = Inr zeroBalance
 \<and> fst (getBalance deadWorld ''bitcoin'' ''1Addr'' []) = Inr zeroBalance"
proof (intro conjI)
  show "fst (getBalance deadWorld ''tron'' ''TAddr'' []) = Inr zeroBalance"
    by (rule getBalance_zero [OF _ tron_fails_dead]) (simp add: own_tron)
  show "fst (getBalance (statusWorld 500) ''tron'' ''TAddr'' []) = Inr zeroBalance"
    by (rule getBalance_zero [OF _ tron_fails_500]) (simp add: own_tron)
  show "fst (getBalance (statusWorld 429) ''ethereum'' ''0xabc'' []) = Inr zeroBalance"
    by (rule getBalance_zero [OF _ eth_fails_429]) (simp add: own_ethereum)
  show "fst (getBalance garbledWorld ''tron'' ''TAddr'' []) = Inr zeroBalance"
    by (rule getBalance_zero [OF _ tron_fails_garbled]) (simp add: own_tron)
  show "fst (getBalance (bodyWorld malformedBody) ''tron'' ''TAddr'' []) = Inr zeroBalance"
    by (rule getBalance_zero [OF _ tron_fails_malformed]) (simp add: own_tron)
  show "fst (getBalance deadWorld ''dogecoin'' ''DAddr'' []) = Inr zeroBalance"
    by (rule getBalance_zero [OF _ doge_fails]) (simp add: dogecoin_not_inherited)
  show "fst (getBalance deadWorld ''bitcoin'' ''1Addr'' []) = Inr zeroBalance"
    by (rule getBalance_zero [OF _ bitcoin_fails_dead]) simp
qed


section \<open>Pipeline: which providers are asked\<close>








section \<open>Pipeline: token aggregation\<close>

lemma map_of_assign: "map_of (assign k v kvs) = (map_of kvs)(k \<mapsto> v)"
  by (induction kvs) auto

lemma tokenLoop_lookedUp:
  "tokenLoop w c a toks acc tr =
     (case lookedUp w c a toks tr of
        (Inl e, tr') \<Rightarrow> (Inl e, tr')
      | (Inr bs, tr') \<Rightarrow>
          (Inr (foldl (\<lambda>acc (t, b). if b > 0 then assign t b acc else acc) acc bs), tr'))"
proof (induction toks arbitrary: acc tr)
  case Nil
  then show ?case by simp
next
  case (Cons ti rest)
  obtain token info where ti: "ti = (token, info)" by (cases ti)
  obtain x tr1 where tb: "tokenBalanceOf w c a token info tr = (x, tr1)"
    by (cases "tokenBalanceOf w c a token info tr")
  show ?case
  proof (cases x)
    case (Inl e)
    with ti tb show ?thesis by simp
  next
    case (Inr b)
    obtain y tr2 where lu: "lookedUp w c a rest tr1 = (y, tr2)"
      by (cases "lookedUp w c a rest tr1")
    show ?thesis
      using ti tb Inr lu Cons.IH [of "if b > 0 then assign token b acc else acc" tr1]
      by (cases y) simp_all
  qed
qed

lemma lookedUp_keys:
  "lookedUp w c a toks tr = (Inr bs, tr') \<Longrightarrow> map fst bs = map fst toks"
proof (induction toks arbitrary: bs tr tr')
  case Nil
  then show ?case by simp
next
  case (Cons ti rest)
  obtain token info where ti: "ti = (token, info)" by (cases ti)
  from Cons.prems ti show ?case
    by (auto split: prod.splits sum.splits dest: Cons.IH)
qed

lemma map_of_collect:
  "distinct (map fst bs) \<Longrightarrow>
     map_of (foldl (\<lambda>acc (t, b). if b > 0 then assign t b acc else acc) acc bs) t =
       (case map_of bs t of
          None \<Rightarrow> map_of acc t
        | Some v \<Rightarrow> if v > 0 then Some v else map_of acc t)"
proof (induction bs arbitrary: acc)
  case Nil
  then show ?case by simp
next
  case (Cons tb bs)
  obtain t' b where tb: "tb = (t', b)" by (cases tb)
  have notin: "t' \<notin> fst ` set bs" using Cons.prems tb by simp
  then have none: "map_of bs t' = None" by (simp add: map_of_eq_None_iff)
  show ?case
    using Cons.IH [of "if b > 0 then assign t' b acc else acc"] Cons.prems tb none
    by (auto simp: map_of_assign split: option.splits)
qed

text \<open>
  C4 (as amended). In an attempt whose native lookup gives a balance, of any value, for a
  currency with configured tokens, every configured token is looked up, and the token map
  of the result holds a symbol exactly when the balance looked up for it is above zero,
  with that balance as its value.
\<close>

theorem token_aggregation:
  assumes "nativeBalance w currency address p tr = (Inr (Balance b), tr1)"
    and "networks currency = Some n" and "tokens n = Some toks"
    and "distinct (map fst toks)"
    and "attempt w currency address p (networks currency) tr = (Inr r, tr')"
  shows "native r = b
       \<and> (\<exists>bs. lookedUp w currency address toks tr1 = (Inr bs, tr')
              \<and> map fst bs = map fst toks
              \<and> (\<forall>t v. tokenOf r t = Some v \<longleftrightarrow> map_of bs t = Some v \<and> v > 0))"
proof -
  obtain y tr2 where lu: "lookedUp w currency address toks tr1 = (y, tr2)"
    by (cases "lookedUp w currency address toks tr1")
  have wt: "withTokens w currency address (Some n) b tr1 = (Inr r, tr')"
    using assms(1,2,5) by (simp add: attempt_def)
  then obtain bs where y: "y = Inr bs"
    using lu assms(3) by (cases y) (simp_all add: withTokens_def tokenLoop_lookedUp)
  let ?tb = "foldl (\<lambda>acc (t, b). if b > 0 then assign t b acc else acc) [] bs"
  have r: "r = \<lparr>native = b, resultTokens = (if ?tb \<noteq> [] then Some ?tb else None)\<rparr>" and "tr' = tr2"
    using wt lu y assms(3) by (simp_all add: withTokens_def tokenLoop_lookedUp)
  have keys: "map fst bs = map fst toks" using lookedUp_keys lu y by blast
  then have d: "distinct (map fst bs)" using assms(4) by simp
  have "tokenOf r t = map_of ?tb t" for t
    using r by (simp add: tokenOf_def)
  then have "tokenOf r t = Some v \<longleftrightarrow> map_of bs t = Some v \<and> v > 0" for t v
    using map_of_collect [OF d, of "[]" t] by (auto split: option.splits)
  with r lu y keys \<open>tr' = tr2\<close> show ?thesis by simp
qed

lemma roundScaled_five: "roundScaled rt (JNum 5) 6 = Some 5000000"
  by code_simp

lemma eth_native_zero:
  "nativeBalance (bodyWorld zeroEthFiveUsdt) ''ethereum'' ''0xabc''
     (hd (configured (bodyWorld zeroEthFiveUsdt) ''ethereum'')) [] =
   (Inr (Balance 0),
    [Request (ViaProvider ''etherscan'')
       (Fetch ''https://api.etherscan.io/v2/api?chainid=1&module=account&action=balance&address=0xabc&tag=latest'')])"
  by (simp add: configured_def run_defs bodyWorld_def zeroEthFiveUsdt_def)

lemma eth_attempt_zero:
  "attempt (bodyWorld zeroEthFiveUsdt) ''ethereum'' ''0xabc''
     (hd (configured (bodyWorld zeroEthFiveUsdt) ''ethereum'')) (networks ''ethereum'') [] =
   (Inr \<lparr>native = 0, resultTokens = Some [(''usdt'', 5000000)]\<rparr>,
    [Request (ViaProvider ''etherscan'')
       (Fetch ''https://api.etherscan.io/v2/api?chainid=1&module=account&action=balance&address=0xabc&tag=latest''),
     Request (TokenLookup ''usdt'')
       (Fetch ''https://aggregratorserver.onrender.com/balance/usdt/erc/0xabc'')])"
  by (simp add: configured_def run_defs bodyWorld_def zeroEthFiveUsdt_def roundScaled_five)

theorem token_aggregation_witness:
  "\<exists>bs. fst (lookedUp (bodyWorld zeroEthFiveUsdt) ''ethereum'' ''0xabc''
               [(''usdt'', \<lparr>tokenAddress = ''0xdac17f958d2ee523a2206206994597c13d831ec7'',
                            tokenDecimals = 6\<rparr>)]
               [Request (ViaProvider ''etherscan'')
                  (Fetch ''https://api.etherscan.io/v2/api?chainid=1&module=account&action=balance&address=0xabc&tag=latest'')])
          = Inr bs
      \<and> map_of bs ''usdt'' = Some 5000000"
proof -
  have n: "networks ''ethereum'' = Some (the (networks ''ethereum''))"
    by (simp add: networks_def)
  have t: "tokens (the (networks ''ethereum'')) =
             Some [(''usdt'', \<lparr>tokenAddress = ''0xdac17f958d2ee523a2206206994597c13d831ec7'',
                               tokenDecimals = 6\<rparr>)]"
    by (simp add: networks_def)
  have d: "distinct (map fst [(''usdt'', \<lparr>tokenAddress = ''0xdac17f958d2ee523a2206206994597c13d831ec7'',
                               tokenDecimals = 6\<rparr>)])"
    by simp
  have held: "tokenOf \<lparr>native = 0, resultTokens = Some [(''usdt'', 5000000)]\<rparr> ''usdt'' = Some 5000000"
    by (simp add: tokenOf_def)
  from token_aggregation [OF eth_native_zero n t d eth_attempt_zero] held
  show ?thesis by fastforce
qed

lemma eth_run_zero:
  "getBalance (bodyWorld zeroEthFiveUsdt) ''ethereum'' ''0xabc'' [] =
     attempt (bodyWorld zeroEthFiveUsdt) ''ethereum'' ''0xabc''
       (hd (configured (bodyWorld zeroEthFiveUsdt) ''ethereum'')) (networks ''ethereum'') []"
proof -
  have c: "providersOf (bodyWorld zeroEthFiveUsdt) ''ethereum''
             = Own [hd (configured (bodyWorld zeroEthFiveUsdt) ''ethereum'')]"
    by (simp add: configured_def providersOf_def tableMember_def apiProviders_def)
  show ?thesis
    by (simp add: getBalance_def c eth_attempt_zero numeral_3_eq_3)
qed

text \<open>
  C4 as stated fails: the token lookups do not wait for a positive native balance. An
  ethereum address with a native balance of 0 and 5 USDT has its token looked up and
  returned.
\<close>

theorem token_lookup_zero_native_counterexample:
  "fst (getBalance (bodyWorld zeroEthFiveUsdt) ''ethereum'' ''0xabc'' [])
     = Inr \<lparr>native = 0, resultTokens = Some [(''usdt'', 5000000)]\<rparr>
 \<and> tokenLookups (snd (getBalance (bodyWorld zeroEthFiveUsdt) ''ethereum'' ''0xabc'' []))
     = [''usdt'']"
  by (simp add: eth_run_zero eth_attempt_zero tokenLookups_def)

section \<open>Pipeline: amounts computed in double precision\<close>

lemma roundScaled_usdt:
  "roundScaled rt (JNum (2361183241434823 / 262144)) 6 = Some 9007199254740994"
  by code_simp

lemma roundScaled_btc:
  "roundScaled rt (JNum (6044629098073147 / 67108864)) 8 = Some 9007199254740994"
  by code_simp

lemma parsed_usdt: "stringToNumber ''9007199254.740993'' = Some (2361183241434823 / 262144)"
  by code_simp

lemma parsed_btc: "stringToNumber ''90071992.54740993'' = Some (6044629098073147 / 67108864)"
  by code_simp

lemma large_ethereum:
  "fst (getBalance (bodyWorld largeUsdt) ''ethereum'' ''0xabc'' [])
     = Inr \<lparr>native = 0, resultTokens = Some [(''usdt'', 9007199254740994)]\<rparr>"
  by (simp add: getBalance_def run_defs bodyWorld_def largeUsdt_def roundScaled_usdt
        numeral_3_eq_3)

lemma large_tron:
  "fst (getBalance (bodyWorld largeUsdt) ''tron'' ''TAddr'' [])
     = Inr \<lparr>native = 0, resultTokens = Some [(''usdt'', 9007199254740994)]\<rparr>"
  by (simp add: getBalance_def run_defs bodyWorld_def largeUsdt_def roundScaled_usdt
        numeral_3_eq_3)

lemma large_bitcoin:
  "fst (getBalance (bodyWorld largeBtc) ''bitcoin'' ''1Addr'' [])
     = Inr \<lparr>native = 9007199254740994, resultTokens = None\<rparr>"
  by (simp add: getBalance_def bitcoinBranch_def bitcoinTry_def bitcoinResult_def run_defs
        bodyWorld_def largeBtc_def roundScaled_btc)

text \<open>
  C3. The amounts that come from the aggregator are computed in double precision,
  \<open>BigInt(Math.round(data.balance * 10 ** d))\<close>, and are not exact. The aggregator
  reports 9007199254.740993 USDT, which is 9007199254740993 units of 10^-6; the
  product of the parsed number and 10^6 has no double of its own, and the token balance
  returned for ethereum and for tron is 9007199254740994. Likewise 90071992.54740993 BTC
  is 9007199254740993 satoshis, and the native balance returned is 9007199254740994.
\<close>

theorem aggregator_amount_inexact:
  "stringToNumber ''9007199254.740993'' = Some (2361183241434823 / 262144)
 \<and> exactUnits (9007199254740993 / 1000000) 6 = 9007199254740993
 \<and> fst (getBalance (bodyWorld largeUsdt) ''ethereum'' ''0xabc'' [])
     = Inr \<lparr>native = 0, resultTokens = Some [(''usdt'', 9007199254740994)]\<rparr>
 \<and> fst (getBalance (bodyWorld largeUsdt) ''tron'' ''TAddr'' [])
     = Inr \<lparr>native = 0, resultTokens = Some [(''usdt'', 9007199254740994)]\<rparr>
 \<and> stringToNumber ''90071992.54740993'' = Some (6044629098073147 / 67108864)
 \<and> exactUnits (9007199254740993 / 100000000) 8 = 9007199254740993
 \<and> fst (getBalance (bodyWorld largeBtc) ''bitcoin'' ''1Addr'' [])
     = Inr \<lparr>native = 9007199254740994, resultTokens = None\<rparr>"
  using parsed_usdt parsed_btc large_ethereum large_tron large_bitcoin
  by (simp add: exactUnits_def)

end
